theory Spec2Isabelle
  imports Main
begin

section \<open>JavaScript values used by api\_server.js\<close>

text \<open>
  A value that is a string, \<open>null\<close> or \<open>undefined\<close> (an environment variable, a request
  header, a regular-expression capture, a cookie value) is a \<open>string option\<close>. Script text
  and header values are lists of 8-bit characters, so the model covers the Latin-1 part of
  JavaScript's UTF-16 strings.
\<close>

text \<open>\<open>!x\<close> for a string-or-missing value: \<open>undefined\<close>, \<open>null\<close> and \<open>''\<close> are falsy.\<close>

definition falsy :: "string option \<Rightarrow> bool" where
  "falsy x = (case x of None \<Rightarrow> True | Some s \<Rightarrow> s = [])"

text \<open>\<open>x || d\<close> with a string default, and \<open>x || null\<close>.\<close>

definition orDefault :: "string option \<Rightarrow> string \<Rightarrow> string" where
  "orDefault x d = (case x of None \<Rightarrow> d | Some s \<Rightarrow> if s = [] then d else s)"

definition orNull :: "string option \<Rightarrow> string option" where
  "orNull x = (case x of None \<Rightarrow> None | Some s \<Rightarrow> if s = [] then None else Some s)"

text \<open>\<open>String.prototype.includes\<close>: the second string occurs somewhere in the first.\<close>

fun startsWith :: "string \<Rightarrow> string \<Rightarrow> bool" where
  "startsWith s [] = True"
| "startsWith [] (p # ps) = False"
| "startsWith (x # xs) (p # ps) = (x = p \<and> startsWith xs ps)"

fun str_includes :: "string \<Rightarrow> string \<Rightarrow> bool" where
  "str_includes [] sub = startsWith [] sub"
| "str_includes (x # xs) sub = (startsWith (x # xs) sub \<or> str_includes xs sub)"

section \<open>The regular expressions of the page scan\<close>

text \<open>
  The three patterns of lines 113, 117 and 120 are sequences of quantified one-character
  classes with one capture group each. A pattern is a list of items; the flag of an item
  says whether the characters it consumes belong to capture group 1.
\<close>

datatype cls = Ch char | Space | Digit | Quote | NotIn "char list"

datatype quant = Once | Opt | Star | Plus

type_synonym item = "cls \<times> quant \<times> bool"

definition squote :: char where "squote = CHR 0x27"
definition dquote :: char where "dquote = CHR 0x22"

text \<open>\<open>\s\<close> on 8-bit characters: TAB, LF, VT, FF, CR, space and the no-break space.\<close>

definition isSpace :: "char \<Rightarrow> bool" where
  "isSpace c = (c \<in> set [CHR 0x09, CHR 0x0A, CHR 0x0B, CHR 0x0C, CHR 0x0D, CHR 0x20, CHR 0xA0])"

definition isDigit :: "char \<Rightarrow> bool" where
  "isDigit c = (c \<in> set ''0123456789'')"

fun inCls :: "cls \<Rightarrow> char \<Rightarrow> bool" where
  "inCls (Ch a) c = (c = a)"
| "inCls Space c = isSpace c"
| "inCls Digit c = isDigit c"
| "inCls Quote c = (c = squote \<or> c = dquote)"
| "inCls (NotIn cs) c = (c \<notin> set cs)"

definition grab :: "bool \<Rightarrow> string \<Rightarrow> char \<Rightarrow> string" where
  "grab g cap c = (if g then cap @ [c] else cap)"

text \<open>
  Backtracking match at the start of the input, in the priority order of the JavaScript
  engine: a quantifier takes as many characters as it can and gives them back one at a
  time when the rest of the pattern fails. The result is the text of capture group 1.
\<close>

function matchHere :: "item list \<Rightarrow> string \<Rightarrow> string \<Rightarrow> string option" where
  "matchHere [] s cap = Some cap"
| "matchHere ((c, Once, g) # ps) [] cap = None"
| "matchHere ((c, Once, g) # ps) (x # xs) cap =
     (if inCls c x then matchHere ps xs (grab g cap x) else None)"
| "matchHere ((c, Opt, g) # ps) [] cap = matchHere ps [] cap"
| "matchHere ((c, Opt, g) # ps) (x # xs) cap =
     (if inCls c x
      then (case matchHere ps xs (grab g cap x) of
              Some r \<Rightarrow> Some r
            | None \<Rightarrow> matchHere ps (x # xs) cap)
      else matchHere ps (x # xs) cap)"
| "matchHere ((c, Star, g) # ps) [] cap = matchHere ps [] cap"
| "matchHere ((c, Star, g) # ps) (x # xs) cap =
     (if inCls c x
      then (case matchHere ((c, Star, g) # ps) xs (grab g cap x) of
              Some r \<Rightarrow> Some r
            | None \<Rightarrow> matchHere ps (x # xs) cap)
      else matchHere ps (x # xs) cap)"
| "matchHere ((c, Plus, g) # ps) [] cap = None"
| "matchHere ((c, Plus, g) # ps) (x # xs) cap =
     (if inCls c x then matchHere ((c, Star, g) # ps) xs (grab g cap x) else None)"
  by pat_completeness auto
termination
  by (relation "measures [\<lambda>(ps, s, cap). length s, \<lambda>(ps, s, cap). length ps]") auto

text \<open>\<open>text.match(re)\<close> without the global flag: the leftmost position where the pattern matches.\<close>

fun search :: "item list \<Rightarrow> string \<Rightarrow> string option" where
  "search ps [] = matchHere ps [] []"
| "search ps (x # xs) =
     (case matchHere ps (x # xs) [] of Some r \<Rightarrow> Some r | None \<Rightarrow> search ps xs)"

definition lit :: "string \<Rightarrow> item list" where
  "lit s = map (\<lambda>c. (Ch c, Once, False)) s"

text \<open>Line 113: \<^verbatim>\<open>/aDom\.construct\s*\(\s*\{([^}]+)\}\s*\)/\<close>\<close>

definition adomRe :: "item list" where
  "adomRe = lit ''aDom.construct'' @
     [(Space, Star, False), (Ch CHR ''('', Once, False), (Space, Star, False),
      (Ch CHR ''{'', Once, False), (NotIn ''}'', Plus, True), (Ch CHR ''}'', Once, False),
      (Space, Star, False), (Ch CHR '')'', Once, False)]"

text \<open>Line 117: \<^verbatim>\<open>/['"]?csrfToken['"]?\s*:\s*['"]([^'"]+)['"]/\<close>\<close>

definition csrfRe :: "item list" where
  "csrfRe = [(Quote, Opt, False)] @ lit ''csrfToken'' @
     [(Quote, Opt, False), (Space, Star, False), (Ch CHR '':'', Once, False),
      (Space, Star, False), (Quote, Once, False), (NotIn [squote, dquote], Plus, True),
      (Quote, Once, False)]"

text \<open>Line 120: \<^verbatim>\<open>/['"]?currentCompanyId['"]?\s*:\s*['"](\d+)['"]/\<close>\<close>

definition companyRe :: "item list" where
  "companyRe = [(Quote, Opt, False)] @ lit ''currentCompanyId'' @
     [(Quote, Opt, False), (Space, Star, False), (Ch CHR '':'', Once, False),
      (Space, Star, False), (Quote, Once, False), (Digit, Plus, True),
      (Quote, Once, False)]"

section \<open>Step 5: the scan of the inline scripts (lines 105 to 126)\<close>

record authData =
  csrf :: "string option"
  companyId :: "string option"

text \<open>The body of the \<open>for\<close> loop, for one script's \<open>textContent\<close>.\<close>

definition scanScript :: "authData \<Rightarrow> string \<Rightarrow> authData" where
  "scanScript a text =
     (case search adomRe text of
        None \<Rightarrow> a
      | Some configStr \<Rightarrow>
          (let csrfMatch = search csrfRe configStr;
               a1 = (if csrfMatch \<noteq> None \<and> falsy (csrf a) then a\<lparr>csrf := csrfMatch\<rparr> else a);
               companyMatch = search companyRe configStr
           in if companyMatch \<noteq> None \<and> falsy (companyId a1)
              then a1\<lparr>companyId := companyMatch\<rparr> else a1))"

text \<open>The callback of \<open>page.evaluate\<close>, on the texts of the document's script elements.\<close>

definition extractAuthData :: "string list \<Rightarrow> authData" where
  "extractAuthData scripts = foldl scanScript \<lparr>csrf = None, companyId = None\<rparr> scripts"

section \<open>The browser as the harvest sees it\<close>

text \<open>
  Every awaited Playwright call either resolves or rejects; a rejection is represented by
  the message of its error. A run of the harvest is determined by the outcomes below, one
  per call site of \<open>getCheckoutChampAuth\<close>, and by the page state read at lines 83 and 88.
  \<open>page.$\<close> resolves to an element or to \<open>null\<close>: the model keeps whether it is non-null.
\<close>

record cookie =
  name :: string
  val :: string
  domain :: string
  path :: string
  expires :: int
  httpOnly :: bool
  secure :: bool
  sameSite :: string

record world =
  launch :: "string + unit"
  newContext :: "string + unit"
  newPage :: "string + unit"
  gotoLogin :: "string + unit"
  fillUser :: "string + unit"
  fillPass :: "string + unit"
  waitForNavigation :: "string + unit"
  click :: "string + unit"
  waitForTimeout :: "string + unit"
  url1 :: string
  query1 :: "string + bool"
  gotoDashboard :: "string + unit"
  url2 :: string
  query2 :: "string + bool"
  contextCookies :: "string + cookie list"
  evaluate :: "string + string list"
  close1 :: "string + unit"
  close2 :: "string + unit"
  now :: string

text \<open>The calls made on the browser, in the order they are issued.\<close>

datatype event =
    Launch
  | NewContext string
  | NewPage
  | Goto string nat
  | Fill string string nat
  | WaitForNavigation nat
  | Click string
  | WaitForTimeout nat
  | Url
  | Query string
  | Cookies
  | Evaluate
  | Close

text \<open>An asynchronous computation: the calls it issued, and its rejection or its value.\<close>

type_synonym 'a io = "event list \<times> (string + 'a)"

definition ret :: "'a \<Rightarrow> 'a io" where
  "ret v = ([], Inr v)"

definition throw :: "string \<Rightarrow> 'a io" where
  "throw e = ([], Inl e)"

definition call :: "event \<Rightarrow> (string + 'a) \<Rightarrow> 'a io" where
  "call ev r = ([ev], r)"

text \<open>\<open>await m\<close> followed by the rest of the function: a rejection skips the rest.\<close>

definition andThen :: "'a io \<Rightarrow> ('a \<Rightarrow> 'b io) \<Rightarrow> 'b io" where
  "andThen m f =
     (case m of
        (t, Inl e) \<Rightarrow> (t, Inl e)
      | (t, Inr v) \<Rightarrow> (case f v of (t', r) \<Rightarrow> (t @ t', r)))"

text \<open>\<open>m.catch(() => null)\<close>\<close>

definition catchNull :: "'a io \<Rightarrow> 'a option io" where
  "catchNull m =
     (case m of (t, Inl e) \<Rightarrow> (t, Inr None) | (t, Inr v) \<Rightarrow> (t, Inr (Some v)))"

text \<open>
  \<open>Promise.all([a, b])\<close>: both calls are issued before either is awaited. At its only use
  (line 75) the first promise carries a \<open>catch\<close> and cannot reject.
\<close>

definition promiseAll2 :: "'a io \<Rightarrow> 'b io \<Rightarrow> ('a \<times> 'b) io" where
  "promiseAll2 a b =
     (fst a @ fst b,
      case snd a of
        Inl e \<Rightarrow> Inl e
      | Inr x \<Rightarrow> (case snd b of Inl e \<Rightarrow> Inl e | Inr y \<Rightarrow> Inr (x, y)))"

text \<open>\<open>try { m } catch (error) { h error }\<close>\<close>

definition tryCatch :: "'a io \<Rightarrow> (string \<Rightarrow> 'a io) \<Rightarrow> 'a io" where
  "tryCatch m h =
     (case m of
        (t, Inl e) \<Rightarrow> (case h e of (t', r) \<Rightarrow> (t @ t', r))
      | (t, Inr v) \<Rightarrow> (t, Inr v))"

section \<open>Constants of getCheckoutChampAuth\<close>

definition BASE :: string where
  "BASE = ''https://crm.checkoutchamp.com''"

definition LOGIN_URL :: string where
  "LOGIN_URL = BASE @ ''/''"

definition DASHBOARD_URL_PART :: string where
  "DASHBOARD_URL_PART = ''/dashboard''"

definition DATA_ENDPOINT :: string where
  "DATA_ENDPOINT = BASE @ ''/reports/order-details/getTable.ajax.php''"

definition USER_AGENT :: string where
  "USER_AGENT = ''Mozilla/5.0 (Windows NT 10.0; Win64; x64) AppleWebKit/537.36 (KHTML, like Gecko) Chrome/115.0.0.0 Safari/537.36''"

definition userNameSelector :: string where
  "userNameSelector = ''input[name='' @ [dquote] @ ''userName'' @ [dquote] @ '']''"

definition passwordSelector :: string where
  "passwordSelector = ''input[name='' @ [dquote] @ ''password'' @ [dquote] @ '']''"

definition MISSING_CREDENTIALS :: string where
  "MISSING_CREDENTIALS = ''Missing CHECKOUTCHAMP_USER or CHECKOUTCHAMP_PASS environment variables''"

definition LOGIN_FAILED :: string where
  "LOGIN_FAILED = ''Login failed - could not reach dashboard''"

section \<open>Step 6: the response object (lines 131 to 158)\<close>

record bundleCookies =
  crmid :: "string option"
  k_region :: "string option"
  cf_bm :: "string option"
  all_cookies :: "cookie list"

record bundleHeaders =
  Content_Type :: string
  X_COMPANY_ID :: string
  X_CSRF_Token :: "string option"
  User_Agent :: string
  Referer :: string
  Origin :: string

record bundleEndpoints =
  base_url :: string
  login_url :: string
  data_endpoint :: string
  chart_endpoint :: string

record sessionInfo =
  timestamp :: string
  username :: string
  company_id :: string
  session_timeout_minutes :: nat

record authVariables =
  cookies :: bundleCookies
  headers :: bundleHeaders
  endpoints :: bundleEndpoints
  session_info :: sessionInfo

text \<open>\<open>cookies.find(c => c.name === n)?.value || null\<close> (lines 100 to 102 and 133 to 135)\<close>

definition cookieValue :: "cookie list \<Rightarrow> string \<Rightarrow> string option" where
  "cookieValue cs n = orNull (map_option val (find (\<lambda>c. name c = n) cs))"

definition buildAuthVariables ::
  "cookie list \<Rightarrow> authData \<Rightarrow> string \<Rightarrow> string \<Rightarrow> authVariables" where
  "buildAuthVariables cs a USER isoNow =
     \<lparr>cookies =
        \<lparr>crmid = cookieValue cs ''crmid'',
         k_region = cookieValue cs ''k_region'',
         cf_bm = cookieValue cs ''__cf_bm'',
         all_cookies = cs\<rparr>,
      headers =
        \<lparr>Content_Type = ''application/x-www-form-urlencoded'',
         X_COMPANY_ID = orDefault (companyId a) ''4623'',
         X_CSRF_Token = orNull (csrf a),
         User_Agent = USER_AGENT,
         Referer = ''https://crm.checkoutchamp.com/reports/order-details/'',
         Origin = ''https://crm.checkoutchamp.com''\<rparr>,
      endpoints =
        \<lparr>base_url = BASE,
         login_url = LOGIN_URL,
         data_endpoint = DATA_ENDPOINT,
         chart_endpoint = BASE @ ''/reports/order-details/getChart.ajax.php''\<rparr>,
      session_info =
        \<lparr>timestamp = isoNow,
         username = USER,
         company_id = orDefault (companyId a) ''4623'',
         session_timeout_minutes = 240\<rparr>\<rparr>"

section \<open>getCheckoutChampAuth (lines 41 to 166)\<close>

record environment =
  PORT :: "string option"
  API_TOKEN :: "string option"
  CHECKOUTCHAMP_USER :: "string option"
  CHECKOUTCHAMP_PASS :: "string option"

text \<open>Steps 1 and 2 (lines 66 to 78): open the login page, fill both fields, submit.\<close>

definition submitCredentials :: "string \<Rightarrow> string \<Rightarrow> world \<Rightarrow> unit io" where
  "submitCredentials USER PASS w =
     andThen (call (Goto LOGIN_URL 30000) (gotoLogin w)) (\<lambda>_.
     andThen (call (Fill userNameSelector USER 5000) (fillUser w)) (\<lambda>_.
     andThen (call (Fill passwordSelector PASS 5000) (fillPass w)) (\<lambda>_.
     andThen (promiseAll2
                (catchNull (call (WaitForNavigation 20000) (waitForNavigation w)))
                (call (Click ''#loginBtn'') (click w))) (\<lambda>_.
     ret ()))))"

text \<open>
  Lines 83, 84 and 88, 89: \<open>url.includes(DASHBOARD_URL_PART) || (await page.$(...) !== null)\<close>.
  The query is only issued when the URL test fails.
\<close>

definition checkLoggedIn :: "string \<Rightarrow> (string + bool) \<Rightarrow> bool io" where
  "checkLoggedIn url q =
     andThen (call Url (Inr url)) (\<lambda>u.
       if str_includes u DASHBOARD_URL_PART then ret True
       else call (Query ''body >> text=reports'') q)"

text \<open>Step 3 (lines 83 to 94): verify the login, with the fallback navigation.\<close>

definition verifyLogin :: "world \<Rightarrow> unit io" where
  "verifyLogin w =
     andThen (checkLoggedIn (url1 w) (query1 w)) (\<lambda>loggedIn.
     andThen (if \<not> loggedIn
              then andThen (catchNull (call (Goto (BASE @ ''/dashboard/'') 20000) (gotoDashboard w)))
                     (\<lambda>_. checkLoggedIn (url2 w) (query2 w))
              else ret loggedIn) (\<lambda>loggedIn.
     if \<not> loggedIn then throw LOGIN_FAILED else ret ()))"

text \<open>Steps 4 to 6 (lines 98 to 160): read the cookies, scan the scripts, close, build.\<close>

definition harvestSession :: "string \<Rightarrow> world \<Rightarrow> authVariables io" where
  "harvestSession USER w =
     andThen (call Cookies (contextCookies w)) (\<lambda>cs.
     andThen (call Evaluate (map_sum id extractAuthData (evaluate w))) (\<lambda>a.
     andThen (call Close (close1 w)) (\<lambda>_.
     ret (buildAuthVariables cs a USER (now w)))))"

text \<open>The body of the \<open>try\<close> block (lines 66 to 160).\<close>

definition tryBlock :: "string \<Rightarrow> string \<Rightarrow> world \<Rightarrow> authVariables io" where
  "tryBlock USER PASS w =
     andThen (submitCredentials USER PASS w) (\<lambda>_.
     andThen (call (WaitForTimeout 2000) (waitForTimeout w)) (\<lambda>_.
     andThen (verifyLogin w) (\<lambda>_.
     harvestSession USER w)))"

definition strOf :: "string option \<Rightarrow> string" where
  "strOf x = (case x of None \<Rightarrow> [] | Some s \<Rightarrow> s)"

definition getCheckoutChampAuth :: "environment \<Rightarrow> world \<Rightarrow> authVariables io" where
  "getCheckoutChampAuth env w =
     (let USER = CHECKOUTCHAMP_USER env; PASS = CHECKOUTCHAMP_PASS env
      in if falsy USER \<or> falsy PASS then throw MISSING_CREDENTIALS
         else
           andThen (call Launch (launch w)) (\<lambda>_.
           andThen (call (NewContext USER_AGENT) (newContext w)) (\<lambda>_.
           andThen (call NewPage (newPage w)) (\<lambda>_.
           tryCatch (tryBlock (strOf USER) (strOf PASS) w)
             (\<lambda>error. andThen (call Close (close2 w)) (\<lambda>_. throw error))))))"

section \<open>The HTTP endpoint (lines 11, 20 to 38 and 169 to 181)\<close>

text \<open>
  \<open>app.use(express.json())\<close> (line 11) runs on every request before the route. The library
  is not part of the source, so what it does with the body of a request is an outcome that
  the request carries, like the outcomes of the browser calls. It passes the request on
  when there is no JSON body or the body parses; it raises an error of status 400 when the
  body is not well-formed JSON; its other errors (a body over the size limit, an
  unsupported charset or encoding, an aborted request) carry a status of their own.
\<close>

datatype bodyOutcome = BodyAccepted | BodyMalformed | BodyRefused nat

record request =
  x_api_token :: "string option"
  jsonBody :: bodyOutcome

datatype body = ErrorBody string string | AuthBody authVariables | ErrorPage

record response =
  status :: nat
  body :: body

text \<open>
  No error handler is registered, so an error raised by a middleware reaches the default
  handler of Express: it answers with the status of the error when that is a 4xx or 5xx
  status and with 500 otherwise, and sends an HTML page.
\<close>

definition errorStatus :: "nat \<Rightarrow> nat" where
  "errorStatus s = (if 400 \<le> s \<and> s < 600 then s else 500)"

text \<open>For a middleware, \<open>Some r\<close> is the response that is sent and \<open>None\<close> is the call of
  \<open>next()\<close>.\<close>

definition expressJson :: "request \<Rightarrow> response option" where
  "expressJson req =
     (case jsonBody req of
        BodyAccepted \<Rightarrow> None
      | BodyMalformed \<Rightarrow> Some \<lparr>status = errorStatus 400, body = ErrorPage\<rparr>
      | BodyRefused s \<Rightarrow> Some \<lparr>status = errorStatus s, body = ErrorPage\<rparr>)"

definition verifyApiToken :: "environment \<Rightarrow> request \<Rightarrow> response option" where
  "verifyApiToken env req =
     (let token = x_api_token req
      in if falsy token
         then Some \<lparr>status = 401, body = ErrorBody ''Unauthorized'' ''Missing X-API-Token header''\<rparr>
         else if token \<noteq> API_TOKEN env
         then Some \<lparr>status = 403, body = ErrorBody ''Forbidden'' ''Invalid API token''\<rparr>
         else None)"

definition postApiAuth :: "environment \<Rightarrow> request \<Rightarrow> world \<Rightarrow> event list \<times> response" where
  "postApiAuth env req w =
     (case expressJson req of
        Some r \<Rightarrow> ([], r)
      | None \<Rightarrow>
          (case verifyApiToken env req of
             Some r \<Rightarrow> ([], r)
           | None \<Rightarrow>
               (case getCheckoutChampAuth env w of
                  (t, Inr authData) \<Rightarrow> (t, \<lparr>status = 200, body = AuthBody authData\<rparr>)
                | (t, Inl message) \<Rightarrow>
                    (t, \<lparr>status = 500,
                        body = ErrorBody ''Internal Server Error'' message\<rparr>))))"

section \<open>Reference functions for the statements\<close>

text \<open>What the scan finds in one script: the key's value inside the script's first
  \<open>aDom.construct({...})\<close> call, if the script has such a call and the call has the key.\<close>

definition scriptCsrf :: "string \<Rightarrow> string option" where
  "scriptCsrf text =
     (case search adomRe text of None \<Rightarrow> None | Some configStr \<Rightarrow> search csrfRe configStr)"

definition scriptCompany :: "string \<Rightarrow> string option" where
  "scriptCompany text =
     (case search adomRe text of None \<Rightarrow> None | Some configStr \<Rightarrow> search companyRe configStr)"

text \<open>First-match-wins, as the specification words it: the first value found, in scan order.\<close>

fun firstFound :: "'a option list \<Rightarrow> 'a option" where
  "firstFound [] = None"
| "firstFound (None # rs) = firstFound rs"
| "firstFound (Some v # rs) = Some v"

text \<open>A script is related to the scan when its text matches the pattern of line 113.\<close>

definition matchesAdom :: "string \<Rightarrow> bool" where
  "matchesAdom text = (search adomRe text \<noteq> None)"

text \<open>A pattern with a captured item that consumes at least one character.\<close>

fun mustGrab :: "item list \<Rightarrow> bool" where
  "mustGrab [] = False"
| "mustGrab ((c, q, g) # ps) = ((g \<and> (q = Once \<or> q = Plus)) \<or> mustGrab ps)"

definition REPORTS_QUERY :: event where
  "REPORTS_QUERY = Query ''body >> text=reports''"

definition DASHBOARD_GOTO :: event where
  "DASHBOARD_GOTO = Goto (BASE @ ''/dashboard/'') 20000"

text \<open>The calls of steps 1 and 2 when every one of them is issued.\<close>

definition SUBMIT_CALLS :: "string \<Rightarrow> string \<Rightarrow> event list" where
  "SUBMIT_CALLS USER PASS =
     [Goto LOGIN_URL 30000, Fill userNameSelector USER 5000, Fill passwordSelector PASS 5000,
      WaitForNavigation 20000, Click ''#loginBtn'']"

section \<open>Concrete inputs\<close>

definition sampleEnv :: environment where
  "sampleEnv =
     \<lparr>PORT = Some ''3000'', API_TOKEN = Some ''secret'',
      CHECKOUTCHAMP_USER = Some ''alice'', CHECKOUTCHAMP_PASS = Some ''hunter2''\<rparr>"

definition scriptPlain :: string where
  "scriptPlain = ''var ready = true;''"

definition scriptFirst :: string where
  "scriptFirst = ''aDom.construct({csrfToken:'' @ [squote] @ ''tok1'' @ [squote] @ ''})''"

definition scriptSecond :: string where
  "scriptSecond = ''aDom.construct( { csrfToken : '' @ [dquote] @ ''tok2'' @ [dquote] @
     '', currentCompanyId : '' @ [dquote] @ ''77'' @ [dquote] @ '' } )''"

text \<open>A script with two calls, of which only the second defines \<open>csrfToken\<close>, and a later
  script with one call that defines it too.\<close>

definition callPlain :: string where
  "callPlain = ''aDom.construct({a:1})''"

definition callA :: string where
  "callA = ''aDom.construct({csrfToken:'' @ [squote] @ ''A'' @ [squote] @ ''})''"

definition callB :: string where
  "callB = ''aDom.construct({csrfToken:'' @ [squote] @ ''B'' @ [squote] @ ''})''"

text \<open>Requests whose body the parser of line 11 passes on, by the value of their token
  header, and a request with a body that is not well-formed JSON.\<close>

definition tokenRequest :: "string option \<Rightarrow> request" where
  "tokenRequest t = \<lparr>x_api_token = t, jsonBody = BodyAccepted\<rparr>"

definition malformedRequest :: request where
  "malformedRequest = \<lparr>x_api_token = Some ''secret'', jsonBody = BodyMalformed\<rparr>"

text \<open>A run in which the login redirect reaches the dashboard and every call resolves,
  except the wait for the navigation after the click, which times out.\<close>

definition sampleWorld :: world where
  "sampleWorld =
     \<lparr>launch = Inr (), newContext = Inr (), newPage = Inr (), gotoLogin = Inr (),
      fillUser = Inr (), fillPass = Inr (), waitForNavigation = Inl ''Timeout 20000ms exceeded'',
      click = Inr (), waitForTimeout = Inr (),
      url1 = ''https://crm.checkoutchamp.com/dashboard/'', query1 = Inr True,
      gotoDashboard = Inr (),
      url2 = ''https://crm.checkoutchamp.com/dashboard/'', query2 = Inr True,
      contextCookies = Inr [], evaluate = Inr [scriptPlain, scriptFirst, scriptSecond],
      close1 = Inr (), close2 = Inr (), now = ''2024-05-01T10:00:00.000Z''\<rparr>"

text \<open>The same run with the login rejected: the page stays on the login form.\<close>

definition stuckWorld :: world where
  "stuckWorld =
     sampleWorld\<lparr>url1 := ''https://crm.checkoutchamp.com/'', query1 := Inr False,
                 gotoDashboard := Inl ''Timeout 20000ms exceeded'',
                 url2 := ''https://crm.checkoutchamp.com/'', query2 := Inr False\<rparr>"

section \<open>The captured text is never empty\<close>

lemma matchHere_grows:
  "matchHere ps s cap = Some r \<Longrightarrow>
     length cap \<le> length r \<and> (mustGrab ps \<longrightarrow> length cap < length r)"
proof (induction ps s cap arbitrary: r rule: matchHere.induct)
  case (1 s cap)
  then show ?case by simp
next
  case (2 c g ps cap)
  then show ?case by simp
next
  case (3 c g ps x xs cap)
  then show ?case by (fastforce simp: grab_def split: if_splits)
next
  case (4 c g ps cap)
  then show ?case by simp
next
  case (5 c g ps x xs cap)
  then show ?case by (fastforce simp: grab_def split: if_splits option.splits)
next
  case (6 c g ps cap)
  then show ?case by simp
next
  case (7 c g ps x xs cap)
  then show ?case by (fastforce simp: grab_def split: if_splits option.splits)
next
  case (8 c g ps cap)
  then show ?case by simp
next
  case (9 c g ps x xs cap)
  then show ?case by (fastforce simp: grab_def split: if_splits)
qed

lemma search_nonempty: "mustGrab ps \<Longrightarrow> search ps s = Some r \<Longrightarrow> r \<noteq> []"
proof (induction s)
  case Nil
  then show ?case using matchHere_grows[of ps "[]" "[]" r] by auto
next
  case (Cons x xs)
  then show ?case using matchHere_grows[of ps "x # xs" "[]" r]
    by (auto split: option.splits)
qed

lemma mustGrab_append: "mustGrab (ps @ qs) = (mustGrab ps \<or> mustGrab qs)"
  by (induction ps) auto

lemma mustGrab_csrfRe: "mustGrab csrfRe"
  by (simp add: csrfRe_def mustGrab_append)

lemma mustGrab_companyRe: "mustGrab companyRe"
  by (simp add: companyRe_def mustGrab_append)

lemma scriptCsrf_nonempty: "scriptCsrf t \<noteq> Some []"
  using search_nonempty[OF mustGrab_csrfRe]
  by (auto simp: scriptCsrf_def split: option.splits)

lemma scriptCompany_nonempty: "scriptCompany t \<noteq> Some []"
  using search_nonempty[OF mustGrab_companyRe]
  by (auto simp: scriptCompany_def split: option.splits)

section \<open>The scan loop\<close>

lemma csrf_scanScript:
  "csrf (scanScript a t) =
     (if falsy (csrf a) \<and> scriptCsrf t \<noteq> None then scriptCsrf t else csrf a)"
  by (auto simp: scanScript_def scriptCsrf_def Let_def split: option.splits)

lemma companyId_scanScript:
  "companyId (scanScript a t) =
     (if falsy (companyId a) \<and> scriptCompany t \<noteq> None then scriptCompany t else companyId a)"
  by (auto simp: scanScript_def scriptCompany_def Let_def split: option.splits)

text \<open>Once a key has a value, no later script replaces it; until then the loop looks for
  the first script that has one.\<close>

lemma csrf_foldl:
  "csrf a \<noteq> Some [] \<Longrightarrow>
   csrf (foldl scanScript a ts) =
     (case csrf a of Some v \<Rightarrow> Some v | None \<Rightarrow> firstFound (map scriptCsrf ts))"
proof (induction ts arbitrary: a)
  case Nil
  then show ?case by (simp split: option.splits)
next
  case (Cons t ts)
  have ne: "csrf (scanScript a t) \<noteq> Some []"
    using Cons.prems scriptCsrf_nonempty[of t] by (simp add: csrf_scanScript)
  show ?case
    using Cons.prems Cons.IH[OF ne] scriptCsrf_nonempty[of t]
    by (cases "scriptCsrf t"; cases "csrf a") (auto simp: csrf_scanScript falsy_def)
qed

lemma companyId_foldl:
  "companyId a \<noteq> Some [] \<Longrightarrow>
   companyId (foldl scanScript a ts) =
     (case companyId a of Some v \<Rightarrow> Some v | None \<Rightarrow> firstFound (map scriptCompany ts))"
proof (induction ts arbitrary: a)
  case Nil
  then show ?case by (simp split: option.splits)
next
  case (Cons t ts)
  have ne: "companyId (scanScript a t) \<noteq> Some []"
    using Cons.prems scriptCompany_nonempty[of t] by (simp add: companyId_scanScript)
  show ?case
    using Cons.prems Cons.IH[OF ne] scriptCompany_nonempty[of t]
    by (cases "scriptCompany t"; cases "companyId a")
       (auto simp: companyId_scanScript falsy_def)
qed

lemma extract_csrf: "csrf (extractAuthData ts) = firstFound (map scriptCsrf ts)"
  by (simp add: extractAuthData_def csrf_foldl)

lemma extract_companyId: "companyId (extractAuthData ts) = firstFound (map scriptCompany ts)"
  by (simp add: extractAuthData_def companyId_foldl)

lemma scanScript_unrelated: "\<not> matchesAdom t \<Longrightarrow> scanScript a t = a"
  by (simp add: scanScript_def matchesAdom_def)

lemma foldl_scanScript_filter:
  "foldl scanScript a (filter matchesAdom ts) = foldl scanScript a ts"
  by (induction ts arbitrary: a) (simp_all add: scanScript_unrelated)

lemma firstFound_nonempty: "\<forall>r \<in> set rs. r \<noteq> Some [] \<Longrightarrow> firstFound rs \<noteq> Some []"
  by (induction rs rule: firstFound.induct) auto

lemma rescan_stable: "foldl scanScript (extractAuthData ts) ts = extractAuthData ts"
proof (rule authData.equality)
  let ?a = "extractAuthData ts"
  have cne: "csrf ?a \<noteq> Some []"
    unfolding extract_csrf by (rule firstFound_nonempty) (auto simp: scriptCsrf_nonempty)
  have dne: "companyId ?a \<noteq> Some []"
    unfolding extract_companyId
    by (rule firstFound_nonempty) (auto simp: scriptCompany_nonempty)
  show "csrf (foldl scanScript ?a ts) = csrf ?a"
    by (simp add: csrf_foldl[OF cne] extract_csrf split: option.splits)
  show "companyId (foldl scanScript ?a ts) = companyId ?a"
    by (simp add: companyId_foldl[OF dne] extract_companyId split: option.splits)
  show "authData.more (foldl scanScript ?a ts) = authData.more ?a"
    by simp
qed

section \<open>Sequencing of the awaited calls\<close>

lemma andThen_call_ok: "andThen (call ev (Inr v)) f = (ev # fst (f v), snd (f v))"
  by (simp add: andThen_def call_def split: prod.splits)

lemma andThen_call_fail: "andThen (call ev (Inl e)) f = ([ev], Inl e)"
  by (simp add: andThen_def call_def)

lemma andThen_ok: "snd m = Inr v \<Longrightarrow> andThen m f = (fst m @ fst (f v), snd (f v))"
  by (cases m) (simp add: andThen_def split: prod.splits)

lemma andThen_fail: "snd m = Inl e \<Longrightarrow> andThen m f = (fst m, Inl e)"
  by (cases m) (simp add: andThen_def)

lemma andThen_result_ok:
  "snd (andThen m f) = Inr b \<Longrightarrow> \<exists>v. snd m = Inr v \<and> snd (f v) = Inr b"
  by (cases m) (auto simp: andThen_def split: sum.splits prod.splits)

lemma fst_andThen: "\<exists>rest. fst (andThen m f) = fst m @ rest"
  by (cases m) (auto simp: andThen_def split: sum.splits prod.splits)

lemma fst_andThen_eq:
  "fst (andThen m f) = fst m @ (case snd m of Inl e \<Rightarrow> [] | Inr v \<Rightarrow> fst (f v))"
  by (cases m) (auto simp: andThen_def split: sum.splits prod.splits)

lemma snd_andThen_eq:
  "snd (andThen m f) = (case snd m of Inl e \<Rightarrow> Inl e | Inr v \<Rightarrow> snd (f v))"
  by (cases m) (auto simp: andThen_def split: sum.splits prod.splits)

lemma catch_rethrow:
  "snd m = Inl e \<Longrightarrow>
   tryCatch m (\<lambda>error. andThen (call Close c) (\<lambda>_. throw error)) =
     (fst m @ [Close], case c of Inl e' \<Rightarrow> Inl e' | Inr _ \<Rightarrow> Inl e)"
  by (cases m; cases c) (simp_all add: tryCatch_def andThen_def call_def throw_def)

lemma catch_pass: "snd m = Inr v \<Longrightarrow> tryCatch m h = m"
  by (cases m) (simp add: tryCatch_def)

lemma rethrow_never_ok:
  "snd (tryCatch m (\<lambda>error. andThen (call Close c) (\<lambda>_. throw error))) = Inr b \<Longrightarrow> snd m = Inr b"
  by (cases m; cases c) (auto simp: tryCatch_def andThen_def call_def throw_def split: sum.splits)

lemma fst_tryCatch: "\<exists>rest. fst (tryCatch m h) = fst m @ rest"
proof (cases m)
  case (Pair t r)
  then show ?thesis
    by (cases r) (simp_all add: tryCatch_def split: prod.splits)
qed

section \<open>Step 3: the verification and its fallback\<close>

lemma checkLoggedIn_url:
  "str_includes url DASHBOARD_URL_PART \<Longrightarrow> checkLoggedIn url q = ([Url], Inr True)"
  by (simp add: checkLoggedIn_def andThen_call_ok ret_def)

lemma checkLoggedIn_query:
  "\<not> str_includes url DASHBOARD_URL_PART \<Longrightarrow> checkLoggedIn url q = ([Url, REPORTS_QUERY], q)"
  by (simp add: checkLoggedIn_def andThen_def call_def REPORTS_QUERY_def)

lemma verify_1: "str_includes (url1 w) DASHBOARD_URL_PART \<Longrightarrow> verifyLogin w = ([Url], Inr ())"
  by (simp add: verifyLogin_def checkLoggedIn_url andThen_def ret_def)

lemma verify_2:
  "\<not> str_includes (url1 w) DASHBOARD_URL_PART \<Longrightarrow> query1 w = Inr True \<Longrightarrow>
   verifyLogin w = ([Url, REPORTS_QUERY], Inr ())"
  by (simp add: verifyLogin_def checkLoggedIn_query andThen_def ret_def)

lemma verify_3:
  "\<not> str_includes (url1 w) DASHBOARD_URL_PART \<Longrightarrow> query1 w = Inr False \<Longrightarrow>
   str_includes (url2 w) DASHBOARD_URL_PART \<Longrightarrow>
   verifyLogin w = ([Url, REPORTS_QUERY, DASHBOARD_GOTO, Url], Inr ())"
  by (cases "gotoDashboard w")
     (simp_all add: verifyLogin_def checkLoggedIn_query checkLoggedIn_url
        DASHBOARD_GOTO_def andThen_def catchNull_def call_def ret_def)

lemma verify_4:
  "\<not> str_includes (url1 w) DASHBOARD_URL_PART \<Longrightarrow> query1 w = Inr False \<Longrightarrow>
   \<not> str_includes (url2 w) DASHBOARD_URL_PART \<Longrightarrow> query2 w = Inr True \<Longrightarrow>
   verifyLogin w = ([Url, REPORTS_QUERY, DASHBOARD_GOTO, Url, REPORTS_QUERY], Inr ())"
  by (cases "gotoDashboard w")
     (simp_all add: verifyLogin_def checkLoggedIn_query
        DASHBOARD_GOTO_def andThen_def catchNull_def call_def ret_def)

lemma verify_5:
  "\<not> str_includes (url1 w) DASHBOARD_URL_PART \<Longrightarrow> query1 w = Inr False \<Longrightarrow>
   \<not> str_includes (url2 w) DASHBOARD_URL_PART \<Longrightarrow> query2 w = Inr False \<Longrightarrow>
   verifyLogin w = ([Url, REPORTS_QUERY, DASHBOARD_GOTO, Url, REPORTS_QUERY], Inl LOGIN_FAILED)"
  by (cases "gotoDashboard w")
     (simp_all add: verifyLogin_def checkLoggedIn_query
        DASHBOARD_GOTO_def andThen_def catchNull_def call_def ret_def throw_def)

lemma verify_ok_confirmed:
  "snd (verifyLogin w) = Inr () \<Longrightarrow>
   str_includes (url1 w) DASHBOARD_URL_PART \<or> query1 w = Inr True \<or>
   str_includes (url2 w) DASHBOARD_URL_PART \<or> query2 w = Inr True"
  by (cases "gotoDashboard w"; cases "query1 w"; cases "query2 w")
     (auto simp: verifyLogin_def checkLoggedIn_def andThen_def call_def catchNull_def
        ret_def throw_def split: if_splits)

section \<open>The harvest around the verification\<close>

lemma submit_ok:
  "gotoLogin w = Inr () \<Longrightarrow> fillUser w = Inr () \<Longrightarrow> fillPass w = Inr () \<Longrightarrow> click w = Inr () \<Longrightarrow>
   submitCredentials USER PASS w = (SUBMIT_CALLS USER PASS, Inr ())"
  by (cases "waitForNavigation w")
     (simp_all add: submitCredentials_def SUBMIT_CALLS_def andThen_call_ok promiseAll2_def
        catchNull_def call_def andThen_def ret_def)

lemma tryBlock_reaches_verify:
  "gotoLogin w = Inr () \<Longrightarrow> fillUser w = Inr () \<Longrightarrow> fillPass w = Inr () \<Longrightarrow> click w = Inr () \<Longrightarrow>
   waitForTimeout w = Inr () \<Longrightarrow>
   tryBlock USER PASS w =
     (SUBMIT_CALLS USER PASS @ [WaitForTimeout 2000] @ fst (andThen (verifyLogin w) (\<lambda>_. harvestSession USER w)),
      snd (andThen (verifyLogin w) (\<lambda>_. harvestSession USER w)))"
  by (simp add: tryBlock_def submit_ok andThen_call_ok andThen_ok[where m = "(SUBMIT_CALLS USER PASS, Inr ())"])

lemma harvest_started:
  "\<not> falsy (CHECKOUTCHAMP_USER env) \<Longrightarrow> \<not> falsy (CHECKOUTCHAMP_PASS env) \<Longrightarrow>
   launch w = Inr () \<Longrightarrow> newContext w = Inr () \<Longrightarrow> newPage w = Inr () \<Longrightarrow>
   getCheckoutChampAuth env w =
     (let r = tryCatch (tryBlock (strOf (CHECKOUTCHAMP_USER env)) (strOf (CHECKOUTCHAMP_PASS env)) w)
                (\<lambda>error. andThen (call Close (close2 w)) (\<lambda>_. throw error))
      in ([Launch, NewContext USER_AGENT, NewPage] @ fst r, snd r))"
  by (simp add: getCheckoutChampAuth_def Let_def andThen_call_ok)

lemma harvest_reaches_verification:
  assumes "\<not> falsy (CHECKOUTCHAMP_USER env)" "\<not> falsy (CHECKOUTCHAMP_PASS env)"
    and "launch w = Inr ()" "newContext w = Inr ()" "newPage w = Inr ()"
    and "gotoLogin w = Inr ()" "fillUser w = Inr ()" "fillPass w = Inr ()" "click w = Inr ()"
    and "waitForTimeout w = Inr ()"
  shows "\<exists>rest. fst (getCheckoutChampAuth env w) =
     [Launch, NewContext USER_AGENT, NewPage] @
      SUBMIT_CALLS (strOf (CHECKOUTCHAMP_USER env)) (strOf (CHECKOUTCHAMP_PASS env)) @
      [WaitForTimeout 2000] @ fst (verifyLogin w) @ rest"
proof -
  let ?U = "strOf (CHECKOUTCHAMP_USER env)" and ?P = "strOf (CHECKOUTCHAMP_PASS env)"
  obtain r1 where r1: "fst (andThen (verifyLogin w) (\<lambda>_. harvestSession ?U w)) = fst (verifyLogin w) @ r1"
    using fst_andThen by blast
  have t: "fst (tryBlock ?U ?P w) = SUBMIT_CALLS ?U ?P @ [WaitForTimeout 2000] @ fst (verifyLogin w) @ r1"
    using assms(6-10) by (simp add: tryBlock_reaches_verify r1)
  obtain r2 where r2: "fst (tryCatch (tryBlock ?U ?P w)
      (\<lambda>error. andThen (call Close (close2 w)) (\<lambda>_. throw error))) = fst (tryBlock ?U ?P w) @ r2"
    using fst_tryCatch by blast
  show ?thesis
    using assms(1-5) by (simp add: harvest_started Let_def r2 t)
qed

lemma harvest_verification_failed:
  assumes "\<not> falsy (CHECKOUTCHAMP_USER env)" "\<not> falsy (CHECKOUTCHAMP_PASS env)"
    and "launch w = Inr ()" "newContext w = Inr ()" "newPage w = Inr ()"
    and "gotoLogin w = Inr ()" "fillUser w = Inr ()" "fillPass w = Inr ()" "click w = Inr ()"
    and "waitForTimeout w = Inr ()"
    and "snd (verifyLogin w) = Inl e"
  shows "getCheckoutChampAuth env w =
     ([Launch, NewContext USER_AGENT, NewPage] @
      SUBMIT_CALLS (strOf (CHECKOUTCHAMP_USER env)) (strOf (CHECKOUTCHAMP_PASS env)) @
      [WaitForTimeout 2000] @ fst (verifyLogin w) @ [Close],
      case close2 w of Inl e' \<Rightarrow> Inl e' | Inr u \<Rightarrow> Inl e)"
proof -
  let ?U = "strOf (CHECKOUTCHAMP_USER env)" and ?P = "strOf (CHECKOUTCHAMP_PASS env)"
  have t: "tryBlock ?U ?P w = (SUBMIT_CALLS ?U ?P @ [WaitForTimeout 2000] @ fst (verifyLogin w), Inl e)"
    using assms(6-11) by (simp add: tryBlock_reaches_verify andThen_fail)
  show ?thesis
    using assms(1-5) by (simp add: harvest_started Let_def t catch_rethrow)
qed

lemma harvest_login_page_failed:
  assumes "\<not> falsy (CHECKOUTCHAMP_USER env)" "\<not> falsy (CHECKOUTCHAMP_PASS env)"
    and "launch w = Inr ()" "newContext w = Inr ()" "newPage w = Inr ()"
    and "gotoLogin w = Inl e"
  shows "getCheckoutChampAuth env w =
     ([Launch, NewContext USER_AGENT, NewPage, Goto LOGIN_URL 30000, Close],
      case close2 w of Inl e' \<Rightarrow> Inl e' | Inr u \<Rightarrow> Inl e)"
proof -
  let ?U = "strOf (CHECKOUTCHAMP_USER env)" and ?P = "strOf (CHECKOUTCHAMP_PASS env)"
  have s: "submitCredentials ?U ?P w = ([Goto LOGIN_URL 30000], Inl e)"
    using assms(6) by (simp add: submitCredentials_def andThen_call_fail)
  have t: "tryBlock ?U ?P w = ([Goto LOGIN_URL 30000], Inl e)"
    by (simp add: tryBlock_def s andThen_fail)
  show ?thesis
    using assms(1-5) by (simp add: harvest_started Let_def t catch_rethrow)
qed

lemma submit_ignores_navigation_wait:
  "submitCredentials USER PASS (w\<lparr>waitForNavigation := r\<rparr>) = submitCredentials USER PASS w"
  by (cases r; cases "waitForNavigation w"; cases "click w")
     (simp_all add: submitCredentials_def promiseAll2_def catchNull_def call_def andThen_def
        ret_def split: sum.splits)

lemma harvest_ignores_navigation_wait:
  "getCheckoutChampAuth env (w\<lparr>waitForNavigation := r\<rparr>) = getCheckoutChampAuth env w"
proof -
  have "tryBlock USER PASS (w\<lparr>waitForNavigation := r\<rparr>) = tryBlock USER PASS w" for USER PASS
    by (simp add: tryBlock_def submit_ignores_navigation_wait verifyLogin_def
        harvestSession_def cong: if_cong)
  then show ?thesis
    by (cases "falsy (CHECKOUTCHAMP_USER env) \<or> falsy (CHECKOUTCHAMP_PASS env)")
       (simp_all add: getCheckoutChampAuth_def Let_def)
qed

lemma harvest_ok_tryBlock:
  assumes "snd (getCheckoutChampAuth env w) = Inr b"
  shows "snd (tryBlock (strOf (CHECKOUTCHAMP_USER env)) (strOf (CHECKOUTCHAMP_PASS env)) w) = Inr b"
proof -
  have t: "\<not> (falsy (CHECKOUTCHAMP_USER env) \<or> falsy (CHECKOUTCHAMP_PASS env))"
    using assms by (auto simp: getCheckoutChampAuth_def Let_def throw_def)
  from assms t obtain v1 v2 v3 where
    "snd (tryCatch (tryBlock (strOf (CHECKOUTCHAMP_USER env)) (strOf (CHECKOUTCHAMP_PASS env)) w)
           (\<lambda>error. andThen (call Close (close2 w)) (\<lambda>_. throw error))) = Inr b"
    by (auto simp: getCheckoutChampAuth_def Let_def dest!: andThen_result_ok)
  then show ?thesis by (rule rethrow_never_ok)
qed

lemma tryBlock_ok_verify:
  "snd (tryBlock USER PASS w) = Inr b \<Longrightarrow> snd (verifyLogin w) = Inr ()"
  by (auto simp: tryBlock_def dest!: andThen_result_ok)

lemma errorStatus_not_ok: "errorStatus s \<noteq> 200"
  by (simp add: errorStatus_def)

lemma endpoint_ok_harvest:
  "status (snd (postApiAuth env req w)) = 200 \<Longrightarrow> \<exists>b. snd (getCheckoutChampAuth env w) = Inr b"
  by (auto simp: postApiAuth_def expressJson_def verifyApiToken_def Let_def errorStatus_not_ok
      split: option.splits prod.splits sum.splits if_splits bodyOutcome.splits)

lemma tokenRequest_fields:
  "x_api_token (tokenRequest t) = t" "jsonBody (tokenRequest t) = BodyAccepted"
  by (simp_all add: tokenRequest_def)

lemma tryBlock_verification_failed:
  assumes "gotoLogin w = Inr ()" "fillUser w = Inr ()" "fillPass w = Inr ()" "click w = Inr ()"
    and "waitForTimeout w = Inr ()"
    and "snd (verifyLogin w) = Inl e"
  shows "tryBlock USER PASS w =
     (SUBMIT_CALLS USER PASS @ [WaitForTimeout 2000] @ fst (verifyLogin w), Inl e)"
  using assms by (simp add: tryBlock_reaches_verify andThen_fail)

lemma harvest_verification_failed_abort:
  assumes "\<not> falsy (CHECKOUTCHAMP_USER env)" "\<not> falsy (CHECKOUTCHAMP_PASS env)"
    and "launch w = Inr ()" "newContext w = Inr ()" "newPage w = Inr ()"
    and "gotoLogin w = Inr ()" "fillUser w = Inr ()" "fillPass w = Inr ()" "click w = Inr ()"
    and "waitForTimeout w = Inr ()"
    and "snd (verifyLogin w) = Inl e"
  shows "fst (getCheckoutChampAuth env w) =
     [Launch, NewContext USER_AGENT, NewPage] @
      SUBMIT_CALLS (strOf (CHECKOUTCHAMP_USER env)) (strOf (CHECKOUTCHAMP_PASS env)) @
      [WaitForTimeout 2000] @ fst (verifyLogin w) @ [Close]"
    and "\<exists>e'. snd (getCheckoutChampAuth env w) = Inl e'"
    and "close2 w = Inr () \<Longrightarrow> snd (getCheckoutChampAuth env w) = Inl e"
  using harvest_verification_failed [OF assms]
  by (simp_all split: sum.splits)


section \<open>The calls of the release routine\<close>

lemma submit_no_close: "count_list (fst (submitCredentials USER PASS w)) Close = 0"
  by (simp add: submitCredentials_def fst_andThen_eq promiseAll2_def catchNull_def call_def
      ret_def split: sum.splits prod.splits)

lemma check_no_close: "count_list (fst (checkLoggedIn url q)) Close = 0"
  by (simp add: checkLoggedIn_def fst_andThen_eq call_def ret_def split: sum.splits)

lemma verify_no_close: "count_list (fst (verifyLogin w)) Close = 0"
  by (simp add: verifyLogin_def fst_andThen_eq check_no_close catchNull_def call_def ret_def
      throw_def split: sum.splits prod.splits)

lemma harvestSession_close_ok:
  "snd (harvestSession USER w) = Inr b \<Longrightarrow> count_list (fst (harvestSession USER w)) Close = 1"
  by (cases "contextCookies w"; cases "evaluate w"; cases "close1 w")
     (simp_all add: harvestSession_def andThen_def call_def ret_def)

lemma harvestSession_close_fail:
  "snd (harvestSession USER w) = Inl e \<Longrightarrow> close1 w = Inr () \<Longrightarrow>
   count_list (fst (harvestSession USER w)) Close = 0"
  by (cases "contextCookies w"; cases "evaluate w")
     (simp_all add: harvestSession_def andThen_def call_def ret_def)

lemma tryBlock_close_ok:
  "snd (tryBlock USER PASS w) = Inr b \<Longrightarrow> count_list (fst (tryBlock USER PASS w)) Close = 1"
  by (auto simp: tryBlock_def fst_andThen_eq snd_andThen_eq submit_no_close verify_no_close
      harvestSession_close_ok call_def split: sum.splits)

lemma tryBlock_close_fail:
  "snd (tryBlock USER PASS w) = Inl e \<Longrightarrow> close1 w = Inr () \<Longrightarrow>
   count_list (fst (tryBlock USER PASS w)) Close = 0"
  by (auto simp: tryBlock_def fst_andThen_eq snd_andThen_eq submit_no_close verify_no_close
      harvestSession_close_fail call_def split: sum.splits)

lemma release_skipped_outside_try:
  assumes "\<not> falsy (CHECKOUTCHAMP_USER env)" "\<not> falsy (CHECKOUTCHAMP_PASS env)"
    and "launch w = Inr ()"
  shows "newContext w = Inl e \<Longrightarrow> getCheckoutChampAuth env w = ([Launch, NewContext USER_AGENT], Inl e)"
    and "newContext w = Inr () \<Longrightarrow> newPage w = Inl e \<Longrightarrow>
         getCheckoutChampAuth env w = ([Launch, NewContext USER_AGENT, NewPage], Inl e)"
  using assms by (simp_all add: getCheckoutChampAuth_def Let_def andThen_call_ok andThen_call_fail)

section \<open>The concrete runs\<close>

lemma sample_scripts_found:
  "scriptCsrf scriptPlain = None" "scriptCompany scriptPlain = None"
  "scriptCsrf scriptFirst = Some ''tok1''" "scriptCompany scriptFirst = None"
  "scriptCsrf scriptSecond = Some ''tok2''" "scriptCompany scriptSecond = Some ''77''"
  by (simp_all add: scriptCsrf_def scriptCompany_def scriptPlain_def scriptFirst_def
      scriptSecond_def adomRe_def csrfRe_def companyRe_def lit_def squote_def dquote_def
      isSpace_def isDigit_def grab_def)

lemma sample_scripts_related:
  "\<not> matchesAdom scriptPlain" "matchesAdom scriptFirst" "matchesAdom scriptSecond"
  by (simp_all add: matchesAdom_def scriptPlain_def scriptFirst_def
      scriptSecond_def adomRe_def lit_def squote_def dquote_def isSpace_def grab_def)

lemma sample_urls:
  "str_includes (url1 sampleWorld) DASHBOARD_URL_PART"
  "\<not> str_includes (url1 stuckWorld) DASHBOARD_URL_PART"
  "\<not> str_includes (url2 stuckWorld) DASHBOARD_URL_PART"
  "str_includes ''https://crm.checkoutchamp.com/dashboard/'' DASHBOARD_URL_PART"
  by (simp_all add: sampleWorld_def stuckWorld_def DASHBOARD_URL_PART_def)

lemma sample_truthy:
  "\<not> falsy (CHECKOUTCHAMP_USER sampleEnv)" "\<not> falsy (CHECKOUTCHAMP_PASS sampleEnv)"
  "strOf (CHECKOUTCHAMP_USER sampleEnv) = ''alice''" "strOf (CHECKOUTCHAMP_PASS sampleEnv) = ''hunter2''"
  by (simp_all add: sampleEnv_def falsy_def strOf_def)

lemma sample_fields:
  "launch sampleWorld = Inr ()" "newContext sampleWorld = Inr ()" "newPage sampleWorld = Inr ()"
  "gotoLogin sampleWorld = Inr ()" "fillUser sampleWorld = Inr ()" "fillPass sampleWorld = Inr ()"
  "click sampleWorld = Inr ()" "waitForTimeout sampleWorld = Inr ()"
  "waitForNavigation sampleWorld = Inl ''Timeout 20000ms exceeded''"
  "close1 sampleWorld = Inr ()" "close2 sampleWorld = Inr ()"
  by (simp_all add: sampleWorld_def)

lemma stuck_fields:
  "launch stuckWorld = Inr ()" "newContext stuckWorld = Inr ()" "newPage stuckWorld = Inr ()"
  "gotoLogin stuckWorld = Inr ()" "fillUser stuckWorld = Inr ()" "fillPass stuckWorld = Inr ()"
  "click stuckWorld = Inr ()" "waitForTimeout stuckWorld = Inr ()"
  "close1 stuckWorld = Inr ()" "close2 stuckWorld = Inr ()"
  "query1 stuckWorld = Inr False" "query2 stuckWorld = Inr False"
  by (simp_all add: stuckWorld_def sampleWorld_def)

lemma sample_harvest:
  "getCheckoutChampAuth sampleEnv sampleWorld =
     ([Launch, NewContext USER_AGENT, NewPage] @ SUBMIT_CALLS ''alice'' ''hunter2'' @
      [WaitForTimeout 2000, Url, Cookies, Evaluate, Close],
      Inr (buildAuthVariables [] (extractAuthData [scriptPlain, scriptFirst, scriptSecond])
             ''alice'' ''2024-05-01T10:00:00.000Z''))"
proof -
  have v: "verifyLogin sampleWorld = ([Url], Inr ())"
    by (rule verify_1) (rule sample_urls)
  have h: "harvestSession ''alice'' sampleWorld =
      ([Cookies, Evaluate, Close],
       Inr (buildAuthVariables [] (extractAuthData [scriptPlain, scriptFirst, scriptSecond])
              ''alice'' ''2024-05-01T10:00:00.000Z''))"
    by (simp add: harvestSession_def sampleWorld_def andThen_call_ok ret_def)
  have t: "tryBlock ''alice'' ''hunter2'' sampleWorld =
      (SUBMIT_CALLS ''alice'' ''hunter2'' @ [WaitForTimeout 2000, Url, Cookies, Evaluate, Close],
       Inr (buildAuthVariables [] (extractAuthData [scriptPlain, scriptFirst, scriptSecond])
              ''alice'' ''2024-05-01T10:00:00.000Z''))"
    by (subst tryBlock_reaches_verify) (simp_all add: sampleWorld_def v[unfolded sampleWorld_def] h[unfolded sampleWorld_def] andThen_def)
  show ?thesis
    by (subst harvest_started) (simp_all add: sample_truthy t catch_pass Let_def, simp_all add: sampleWorld_def)
qed

lemma stuck_verify:
  "verifyLogin stuckWorld =
     ([Url, REPORTS_QUERY, DASHBOARD_GOTO, Url, REPORTS_QUERY], Inl LOGIN_FAILED)"
  by (rule verify_5) (simp_all add: sample_urls, simp_all add: stuckWorld_def)

lemma stuck_harvest:
  "getCheckoutChampAuth sampleEnv stuckWorld =
     ([Launch, NewContext USER_AGENT, NewPage] @ SUBMIT_CALLS ''alice'' ''hunter2'' @
      [WaitForTimeout 2000, Url, REPORTS_QUERY, DASHBOARD_GOTO, Url, REPORTS_QUERY, Close],
      Inl LOGIN_FAILED)"
proof -
  have v: "verifyLogin stuckWorld = ([Url, REPORTS_QUERY, DASHBOARD_GOTO, Url, REPORTS_QUERY], Inl LOGIN_FAILED)"
    by (rule verify_5) (simp_all add: sample_urls, simp_all add: stuckWorld_def)
  have t: "tryBlock ''alice'' ''hunter2'' stuckWorld =
      (SUBMIT_CALLS ''alice'' ''hunter2'' @ [WaitForTimeout 2000, Url, REPORTS_QUERY, DASHBOARD_GOTO, Url, REPORTS_QUERY],
       Inl LOGIN_FAILED)"
    by (subst tryBlock_reaches_verify) (simp_all add: v andThen_def, simp_all add: stuckWorld_def sampleWorld_def)
  show ?thesis
    by (subst harvest_started) (simp_all add: sample_truthy t catch_rethrow Let_def, simp_all add: stuckWorld_def sampleWorld_def)
qed

section \<open>The properties\<close>

subsection \<open>Login verification\<close>

text \<open>
  C1, as stated, fails in its last part. In the run below the page stays on the login form
  at both checks, so the verification throws the login-failed error; the release of the
  browser in the handler (line 163) then rejects, and the harvest returns that rejection
  and not the login-failed error.
\<close>

theorem login_failed_error_replaced:
  "verifyLogin (stuckWorld\<lparr>close2 := Inl ''Protocol error''\<rparr>) =
     ([Url, REPORTS_QUERY, DASHBOARD_GOTO, Url, REPORTS_QUERY], Inl LOGIN_FAILED) \<and>
   getCheckoutChampAuth sampleEnv (stuckWorld\<lparr>close2 := Inl ''Protocol error''\<rparr>) =
     ([Launch, NewContext USER_AGENT, NewPage] @ SUBMIT_CALLS ''alice'' ''hunter2'' @
      [WaitForTimeout 2000, Url, REPORTS_QUERY, DASHBOARD_GOTO, Url, REPORTS_QUERY, Close],
      Inl ''Protocol error'') \<and>
   snd (getCheckoutChampAuth sampleEnv (stuckWorld\<lparr>close2 := Inl ''Protocol error''\<rparr>)) \<noteq>
     Inl LOGIN_FAILED"
proof -
  let ?w = "stuckWorld\<lparr>close2 := Inl ''Protocol error''\<rparr>"
  have v: "verifyLogin ?w =
      ([Url, REPORTS_QUERY, DASHBOARD_GOTO, Url, REPORTS_QUERY], Inl LOGIN_FAILED)"
    by (rule verify_5) (simp_all add: sample_urls stuck_fields del: str_includes.simps)
  have h: "getCheckoutChampAuth sampleEnv ?w =
     ([Launch, NewContext USER_AGENT, NewPage] @ SUBMIT_CALLS ''alice'' ''hunter2'' @
      [WaitForTimeout 2000, Url, REPORTS_QUERY, DASHBOARD_GOTO, Url, REPORTS_QUERY, Close],
      Inl ''Protocol error'')"
    using harvest_verification_failed [where env = sampleEnv and w = ?w and e = LOGIN_FAILED]
    by (simp add: v sample_truthy stuck_fields)
  show ?thesis
    by (simp add: v h LOGIN_FAILED_def)
qed

text \<open>
  C1, amended. The verification confirms the login when the URL read after the settle delay
  contains \<open>/dashboard\<close> or the query for the text \<open>reports\<close> finds an element. When neither
  holds it navigates once to the dashboard URL with a timeout of 20 seconds, whatever the
  outcome of that navigation, and checks the same two conditions once more; when neither
  holds again it throws the login-failed error. A successful verification implies that one
  of the four conditions held. In the harvest the verification follows the wait of 2000
  milliseconds. After a failed verification the \<open>try\<close> block ends with the login-failed
  error, the only further call is the release of the browser in the handler, and the
  harvest returns an error; that error is the login-failed error whenever the release
  resolves.
\<close>

theorem login_verification:
  "(str_includes (url1 w) DASHBOARD_URL_PART \<longrightarrow> verifyLogin w = ([Url], Inr ())) \<and>
   (\<not> str_includes (url1 w) DASHBOARD_URL_PART \<and> query1 w = Inr True \<longrightarrow>
      verifyLogin w = ([Url, REPORTS_QUERY], Inr ())) \<and>
   (\<not> str_includes (url1 w) DASHBOARD_URL_PART \<and> query1 w = Inr False \<and>
    str_includes (url2 w) DASHBOARD_URL_PART \<longrightarrow>
      verifyLogin w = ([Url, REPORTS_QUERY, DASHBOARD_GOTO, Url], Inr ())) \<and>
   (\<not> str_includes (url1 w) DASHBOARD_URL_PART \<and> query1 w = Inr False \<and>
    \<not> str_includes (url2 w) DASHBOARD_URL_PART \<and> query2 w = Inr True \<longrightarrow>
      verifyLogin w = ([Url, REPORTS_QUERY, DASHBOARD_GOTO, Url, REPORTS_QUERY], Inr ())) \<and>
   (\<not> str_includes (url1 w) DASHBOARD_URL_PART \<and> query1 w = Inr False \<and>
    \<not> str_includes (url2 w) DASHBOARD_URL_PART \<and> query2 w = Inr False \<longrightarrow>
      verifyLogin w =
        ([Url, REPORTS_QUERY, DASHBOARD_GOTO, Url, REPORTS_QUERY], Inl LOGIN_FAILED)) \<and>
   (snd (verifyLogin w) = Inr () \<longrightarrow>
      str_includes (url1 w) DASHBOARD_URL_PART \<or> query1 w = Inr True \<or>
      str_includes (url2 w) DASHBOARD_URL_PART \<or> query2 w = Inr True) \<and>
   (\<not> falsy (CHECKOUTCHAMP_USER env) \<and> \<not> falsy (CHECKOUTCHAMP_PASS env) \<and>
    launch w = Inr () \<and> newContext w = Inr () \<and> newPage w = Inr () \<and>
    gotoLogin w = Inr () \<and> fillUser w = Inr () \<and> fillPass w = Inr () \<and> click w = Inr () \<and>
    waitForTimeout w = Inr () \<longrightarrow>
      (\<exists>rest. fst (getCheckoutChampAuth env w) =
         [Launch, NewContext USER_AGENT, NewPage] @
         SUBMIT_CALLS (strOf (CHECKOUTCHAMP_USER env)) (strOf (CHECKOUTCHAMP_PASS env)) @
         [WaitForTimeout 2000] @ fst (verifyLogin w) @ rest) \<and>
      (snd (verifyLogin w) = Inl LOGIN_FAILED \<longrightarrow>
         tryBlock (strOf (CHECKOUTCHAMP_USER env)) (strOf (CHECKOUTCHAMP_PASS env)) w =
           (SUBMIT_CALLS (strOf (CHECKOUTCHAMP_USER env)) (strOf (CHECKOUTCHAMP_PASS env)) @
            [WaitForTimeout 2000] @ fst (verifyLogin w), Inl LOGIN_FAILED) \<and>
         fst (getCheckoutChampAuth env w) =
           [Launch, NewContext USER_AGENT, NewPage] @
           SUBMIT_CALLS (strOf (CHECKOUTCHAMP_USER env)) (strOf (CHECKOUTCHAMP_PASS env)) @
           [WaitForTimeout 2000] @ fst (verifyLogin w) @ [Close] \<and>
         (\<exists>e. snd (getCheckoutChampAuth env w) = Inl e) \<and>
         (close2 w = Inr () \<longrightarrow> snd (getCheckoutChampAuth env w) = Inl LOGIN_FAILED)))"
proof -
  let ?U = "strOf (CHECKOUTCHAMP_USER env)" and ?P = "strOf (CHECKOUTCHAMP_PASS env)"
  have v: "(str_includes (url1 w) DASHBOARD_URL_PART \<longrightarrow> verifyLogin w = ([Url], Inr ())) \<and>
   (\<not> str_includes (url1 w) DASHBOARD_URL_PART \<and> query1 w = Inr True \<longrightarrow>
      verifyLogin w = ([Url, REPORTS_QUERY], Inr ())) \<and>
   (\<not> str_includes (url1 w) DASHBOARD_URL_PART \<and> query1 w = Inr False \<and>
    str_includes (url2 w) DASHBOARD_URL_PART \<longrightarrow>
      verifyLogin w = ([Url, REPORTS_QUERY, DASHBOARD_GOTO, Url], Inr ())) \<and>
   (\<not> str_includes (url1 w) DASHBOARD_URL_PART \<and> query1 w = Inr False \<and>
    \<not> str_includes (url2 w) DASHBOARD_URL_PART \<and> query2 w = Inr True \<longrightarrow>
      verifyLogin w = ([Url, REPORTS_QUERY, DASHBOARD_GOTO, Url, REPORTS_QUERY], Inr ())) \<and>
   (\<not> str_includes (url1 w) DASHBOARD_URL_PART \<and> query1 w = Inr False \<and>
    \<not> str_includes (url2 w) DASHBOARD_URL_PART \<and> query2 w = Inr False \<longrightarrow>
      verifyLogin w =
        ([Url, REPORTS_QUERY, DASHBOARD_GOTO, Url, REPORTS_QUERY], Inl LOGIN_FAILED))"
    using verify_1 [of w] verify_2 [of w] verify_3 [of w] verify_4 [of w] verify_5 [of w]
    by blast
  have c: "snd (verifyLogin w) = Inr () \<longrightarrow>
      str_includes (url1 w) DASHBOARD_URL_PART \<or> query1 w = Inr True \<or>
      str_includes (url2 w) DASHBOARD_URL_PART \<or> query2 w = Inr True"
    using verify_ok_confirmed [of w] by blast
  have h: "(\<exists>rest. fst (getCheckoutChampAuth env w) =
         [Launch, NewContext USER_AGENT, NewPage] @ SUBMIT_CALLS ?U ?P @
         [WaitForTimeout 2000] @ fst (verifyLogin w) @ rest) \<and>
      (snd (verifyLogin w) = Inl LOGIN_FAILED \<longrightarrow>
         tryBlock ?U ?P w =
           (SUBMIT_CALLS ?U ?P @ [WaitForTimeout 2000] @ fst (verifyLogin w),
            Inl LOGIN_FAILED) \<and>
         fst (getCheckoutChampAuth env w) =
           [Launch, NewContext USER_AGENT, NewPage] @ SUBMIT_CALLS ?U ?P @
           [WaitForTimeout 2000] @ fst (verifyLogin w) @ [Close] \<and>
         (\<exists>e. snd (getCheckoutChampAuth env w) = Inl e) \<and>
         (close2 w = Inr () \<longrightarrow> snd (getCheckoutChampAuth env w) = Inl LOGIN_FAILED))"
    if p: "\<not> falsy (CHECKOUTCHAMP_USER env) \<and> \<not> falsy (CHECKOUTCHAMP_PASS env) \<and>
      launch w = Inr () \<and> newContext w = Inr () \<and> newPage w = Inr () \<and>
      gotoLogin w = Inr () \<and> fillUser w = Inr () \<and> fillPass w = Inr () \<and> click w = Inr () \<and>
      waitForTimeout w = Inr ()"
  proof (intro conjI impI)
    show "\<exists>rest. fst (getCheckoutChampAuth env w) =
         [Launch, NewContext USER_AGENT, NewPage] @ SUBMIT_CALLS ?U ?P @
         [WaitForTimeout 2000] @ fst (verifyLogin w) @ rest"
      using p by (intro harvest_reaches_verification) simp_all
  next
    assume f: "snd (verifyLogin w) = Inl LOGIN_FAILED"
    show "tryBlock ?U ?P w =
        (SUBMIT_CALLS ?U ?P @ [WaitForTimeout 2000] @ fst (verifyLogin w), Inl LOGIN_FAILED)"
      using p f by (intro tryBlock_verification_failed) simp_all
    show "fst (getCheckoutChampAuth env w) =
        [Launch, NewContext USER_AGENT, NewPage] @ SUBMIT_CALLS ?U ?P @
        [WaitForTimeout 2000] @ fst (verifyLogin w) @ [Close]"
      using p f by (intro harvest_verification_failed_abort(1)) simp_all
    show "\<exists>e. snd (getCheckoutChampAuth env w) = Inl e"
      using p f by (intro harvest_verification_failed_abort(2)) simp_all
    show "snd (getCheckoutChampAuth env w) = Inl LOGIN_FAILED" if "close2 w = Inr ()"
      using p f that by (intro harvest_verification_failed_abort(3)) simp_all
  qed
  show ?thesis
    using v c h by blast
qed


theorem login_verification_witness:
  "verifyLogin sampleWorld = ([Url], Inr ()) \<and>
   (\<exists>rest. fst (getCheckoutChampAuth sampleEnv sampleWorld) =
      [Launch, NewContext USER_AGENT, NewPage] @ SUBMIT_CALLS ''alice'' ''hunter2'' @
      [WaitForTimeout 2000] @ fst (verifyLogin sampleWorld) @ rest) \<and>
   verifyLogin (stuckWorld\<lparr>query1 := Inr True\<rparr>) = ([Url, REPORTS_QUERY], Inr ()) \<and>
   verifyLogin (stuckWorld\<lparr>url2 := ''https://crm.checkoutchamp.com/dashboard/''\<rparr>) =
     ([Url, REPORTS_QUERY, DASHBOARD_GOTO, Url], Inr ()) \<and>
   verifyLogin (stuckWorld\<lparr>query2 := Inr True\<rparr>) =
     ([Url, REPORTS_QUERY, DASHBOARD_GOTO, Url, REPORTS_QUERY], Inr ()) \<and>
   verifyLogin stuckWorld =
     ([Url, REPORTS_QUERY, DASHBOARD_GOTO, Url, REPORTS_QUERY], Inl LOGIN_FAILED) \<and>
   close2 stuckWorld = Inr () \<and>
   tryBlock ''alice'' ''hunter2'' stuckWorld =
     (SUBMIT_CALLS ''alice'' ''hunter2'' @
      [WaitForTimeout 2000, Url, REPORTS_QUERY, DASHBOARD_GOTO, Url, REPORTS_QUERY],
      Inl LOGIN_FAILED) \<and>
   getCheckoutChampAuth sampleEnv stuckWorld =
     ([Launch, NewContext USER_AGENT, NewPage] @ SUBMIT_CALLS ''alice'' ''hunter2'' @
      [WaitForTimeout 2000, Url, REPORTS_QUERY, DASHBOARD_GOTO, Url, REPORTS_QUERY, Close],
      Inl LOGIN_FAILED)"
proof -
  note f = sample_urls stuck_fields sample_fields sample_truthy
  have 1: "verifyLogin sampleWorld = ([Url], Inr ())"
    using login_verification [where w = sampleWorld and env = sampleEnv]
    by (simp add: f del: str_includes.simps)
  have 2: "\<exists>rest. fst (getCheckoutChampAuth sampleEnv sampleWorld) =
      [Launch, NewContext USER_AGENT, NewPage] @ SUBMIT_CALLS ''alice'' ''hunter2'' @
      [WaitForTimeout 2000] @ fst (verifyLogin sampleWorld) @ rest"
    using login_verification [where w = sampleWorld and env = sampleEnv] f
    by (metis (no_types, lifting))
  have 3: "verifyLogin (stuckWorld\<lparr>query1 := Inr True\<rparr>) = ([Url, REPORTS_QUERY], Inr ())"
    using login_verification [where w = "stuckWorld\<lparr>query1 := Inr True\<rparr>" and env = sampleEnv]
    by (simp add: f del: str_includes.simps)
  have 4: "verifyLogin (stuckWorld\<lparr>url2 := ''https://crm.checkoutchamp.com/dashboard/''\<rparr>) =
      ([Url, REPORTS_QUERY, DASHBOARD_GOTO, Url], Inr ())"
    using login_verification
      [where w = "stuckWorld\<lparr>url2 := ''https://crm.checkoutchamp.com/dashboard/''\<rparr>"
         and env = sampleEnv]
    by (simp add: f del: str_includes.simps)
  have 5: "verifyLogin (stuckWorld\<lparr>query2 := Inr True\<rparr>) =
      ([Url, REPORTS_QUERY, DASHBOARD_GOTO, Url, REPORTS_QUERY], Inr ())"
    using login_verification [where w = "stuckWorld\<lparr>query2 := Inr True\<rparr>" and env = sampleEnv]
    by (simp add: f del: str_includes.simps)
  have 6: "verifyLogin stuckWorld =
      ([Url, REPORTS_QUERY, DASHBOARD_GOTO, Url, REPORTS_QUERY], Inl LOGIN_FAILED)"
    using login_verification [where w = stuckWorld and env = sampleEnv]
    by (simp add: f del: str_includes.simps)
  have p: "\<not> falsy (CHECKOUTCHAMP_USER sampleEnv) \<and> \<not> falsy (CHECKOUTCHAMP_PASS sampleEnv) \<and>
      launch stuckWorld = Inr () \<and> newContext stuckWorld = Inr () \<and> newPage stuckWorld = Inr () \<and>
      gotoLogin stuckWorld = Inr () \<and> fillUser stuckWorld = Inr () \<and>
      fillPass stuckWorld = Inr () \<and> click stuckWorld = Inr () \<and>
      waitForTimeout stuckWorld = Inr ()"
    by (simp add: stuck_fields sample_truthy)
  have q: "snd (verifyLogin stuckWorld) = Inl LOGIN_FAILED"
    by (simp add: 6)
  note r = login_verification [where w = stuckWorld and env = sampleEnv, THEN conjunct2,
      THEN conjunct2, THEN conjunct2, THEN conjunct2, THEN conjunct2, THEN conjunct2,
      THEN mp, OF p, THEN conjunct2, THEN mp, OF q]
  have 7: "tryBlock ''alice'' ''hunter2'' stuckWorld =
     (SUBMIT_CALLS ''alice'' ''hunter2'' @
      [WaitForTimeout 2000, Url, REPORTS_QUERY, DASHBOARD_GOTO, Url, REPORTS_QUERY],
      Inl LOGIN_FAILED)"
    using r by (simp add: 6 sample_truthy)
  have 8: "fst (getCheckoutChampAuth sampleEnv stuckWorld) =
      [Launch, NewContext USER_AGENT, NewPage] @ SUBMIT_CALLS ''alice'' ''hunter2'' @
      [WaitForTimeout 2000, Url, REPORTS_QUERY, DASHBOARD_GOTO, Url, REPORTS_QUERY, Close]"
    using r by (simp add: 6 sample_truthy)
  have 9: "snd (getCheckoutChampAuth sampleEnv stuckWorld) = Inl LOGIN_FAILED"
    using r by (simp add: stuck_fields)
  have 10: "getCheckoutChampAuth sampleEnv stuckWorld =
     ([Launch, NewContext USER_AGENT, NewPage] @ SUBMIT_CALLS ''alice'' ''hunter2'' @
      [WaitForTimeout 2000, Url, REPORTS_QUERY, DASHBOARD_GOTO, Url, REPORTS_QUERY, Close],
      Inl LOGIN_FAILED)"
    using 8 9 by (simp add: prod_eq_iff)
  show ?thesis
    using 1 2 3 4 5 6 7 10 stuck_fields by blast
qed

subsection \<open>Release of the browser\<close>

text \<open>
  C2. Every run that has launched a browser should call the release routine exactly once
  before it returns. The code does not do so in every run: the browser is launched at line
  54, but the context and the page are created at lines 59 and 63, before the \<open>try\<close> block.
  In the run below the launch resolves and \<open>browser.newContext\<close> rejects: the harvest
  returns that rejection after the two calls shown, and \<open>browser.close\<close> is not among them.
\<close>

theorem release_skipped_when_context_fails:
  "getCheckoutChampAuth sampleEnv (sampleWorld\<lparr>newContext := Inl ''Target closed''\<rparr>) =
     ([Launch, NewContext USER_AGENT], Inl ''Target closed'') \<and>
   count_list
     (fst (getCheckoutChampAuth sampleEnv (sampleWorld\<lparr>newContext := Inl ''Target closed''\<rparr>)))
     Close = 0"
proof -
  have "getCheckoutChampAuth sampleEnv (sampleWorld\<lparr>newContext := Inl ''Target closed''\<rparr>) =
     ([Launch, NewContext USER_AGENT], Inl ''Target closed'')"
    by (rule release_skipped_outside_try(1)) (simp_all add: sample_truthy sample_fields)
  then show ?thesis by simp
qed

text \<open>Once the page exists, and provided the close of line 128 resolves when it is reached,
  the browser is closed exactly once, whichever call of the \<open>try\<close> block rejects.\<close>

lemma release_once_inside_try:
  assumes "\<not> falsy (CHECKOUTCHAMP_USER env)" "\<not> falsy (CHECKOUTCHAMP_PASS env)"
    and "launch w = Inr ()" "newContext w = Inr ()" "newPage w = Inr ()"
    and "close1 w = Inr ()"
  shows "count_list (fst (getCheckoutChampAuth env w)) Close = 1"
proof -
  let ?t = "tryBlock (strOf (CHECKOUTCHAMP_USER env)) (strOf (CHECKOUTCHAMP_PASS env)) w"
  show ?thesis
  proof (cases "snd ?t")
    case (Inl e)
    then show ?thesis
      using assms tryBlock_close_fail[OF Inl assms(6)]
      by (simp add: harvest_started Let_def catch_rethrow)
  next
    case (Inr b)
    then show ?thesis
      using assms tryBlock_close_ok[OF Inr]
      by (simp add: harvest_started Let_def catch_pass USER_AGENT_def)
  qed
qed

text \<open>The close of line 128 is inside the \<open>try\<close> block: when it rejects, the handler calls
  \<open>browser.close\<close> a second time.\<close>

lemma release_twice_when_close_rejects:
  "getCheckoutChampAuth sampleEnv (sampleWorld\<lparr>close1 := Inl ''Protocol error''\<rparr>) =
     ([Launch, NewContext USER_AGENT, NewPage] @ SUBMIT_CALLS ''alice'' ''hunter2'' @
      [WaitForTimeout 2000, Url, Cookies, Evaluate, Close, Close], Inl ''Protocol error'')"
proof -
  let ?w = "sampleWorld\<lparr>close1 := Inl ''Protocol error''\<rparr>"
  have v: "verifyLogin ?w = ([Url], Inr ())"
    by (rule verify_1) (simp add: sample_urls)
  have h: "harvestSession ''alice'' ?w = ([Cookies, Evaluate, Close], Inl ''Protocol error'')"
    by (simp add: harvestSession_def sampleWorld_def andThen_call_ok andThen_call_fail)
  have t: "tryBlock ''alice'' ''hunter2'' ?w =
      (SUBMIT_CALLS ''alice'' ''hunter2'' @ [WaitForTimeout 2000, Url, Cookies, Evaluate, Close],
       Inl ''Protocol error'')"
    by (subst tryBlock_reaches_verify) (simp_all add: sample_fields v h andThen_def)
  show ?thesis
    by (subst harvest_started) (simp_all add: sample_truthy sample_fields t catch_rethrow Let_def)
qed

subsection \<open>A bundle only after a confirmed login\<close>

text \<open>
  C3. When the harvest returns a bundle, the verification of step 3 has succeeded, so
  the dashboard URL or the text query was positive at the first or at the second check.
  When the verification does not succeed, the harvest ends with an error, and the
  endpoint does not answer 200.
\<close>

theorem bundle_only_after_confirmed_login:
  "(\<forall>b. snd (getCheckoutChampAuth env w) = Inr b \<longrightarrow>
      snd (verifyLogin w) = Inr () \<and>
      (str_includes (url1 w) DASHBOARD_URL_PART \<or> query1 w = Inr True \<or>
       str_includes (url2 w) DASHBOARD_URL_PART \<or> query2 w = Inr True)) \<and>
   (snd (verifyLogin w) \<noteq> Inr () \<longrightarrow>
      (\<exists>e. snd (getCheckoutChampAuth env w) = Inl e) \<and>
      status (snd (postApiAuth env req w)) \<noteq> 200)"
proof -
  have a: "snd (verifyLogin w) = Inr ()" if "snd (getCheckoutChampAuth env w) = Inr b" for b
    using that harvest_ok_tryBlock tryBlock_ok_verify by blast
  have b: "\<exists>e. snd (getCheckoutChampAuth env w) = Inl e" if "snd (verifyLogin w) \<noteq> Inr ()"
    using that a by (cases "snd (getCheckoutChampAuth env w)") auto
  have c: "status (snd (postApiAuth env req w)) \<noteq> 200" if "snd (verifyLogin w) \<noteq> Inr ()"
    using that a endpoint_ok_harvest by blast
  show ?thesis using a b c verify_ok_confirmed by blast
qed

theorem bundle_only_after_confirmed_login_witness:
  "(\<exists>b. snd (getCheckoutChampAuth sampleEnv sampleWorld) = Inr b) \<and>
   snd (verifyLogin sampleWorld) = Inr () \<and>
   snd (verifyLogin stuckWorld) \<noteq> Inr () \<and>
   (\<exists>e. snd (getCheckoutChampAuth sampleEnv stuckWorld) = Inl e) \<and>
   status (snd (postApiAuth sampleEnv (tokenRequest (Some ''secret'')) stuckWorld)) \<noteq> 200"
proof -
  have s: "snd (verifyLogin stuckWorld) \<noteq> Inr ()"
    by (simp add: stuck_verify)
  show ?thesis
    using bundle_only_after_confirmed_login [of sampleEnv sampleWorld]
      bundle_only_after_confirmed_login [of sampleEnv stuckWorld "tokenRequest (Some ''secret'')"] s
    by (simp add: sample_harvest)
qed

subsection \<open>Defaults of the response object\<close>

text \<open>
  C4. A company id that is missing or empty puts the constant 4623 into both the
  \<open>X-COMPANY-ID\<close> header and \<open>session_info.company_id\<close>. A CSRF token that is missing or
  empty makes the \<open>X-CSRF-Token\<close> header null, and whenever that header has a value it is
  the extracted token itself, never a substituted constant.
\<close>

theorem default_asymmetry:
  "(falsy (companyId a) \<longrightarrow>
      X_COMPANY_ID (headers (buildAuthVariables cs a USER t)) = ''4623'' \<and>
      company_id (session_info (buildAuthVariables cs a USER t)) = ''4623'') \<and>
   (falsy (csrf a) \<longrightarrow> X_CSRF_Token (headers (buildAuthVariables cs a USER t)) = None) \<and>
   (\<forall>v. X_CSRF_Token (headers (buildAuthVariables cs a USER t)) = Some v \<longrightarrow> csrf a = Some v)"
  by (auto simp: buildAuthVariables_def falsy_def orDefault_def orNull_def
      split: option.splits if_splits)

theorem default_asymmetry_witness:
  "falsy (companyId \<lparr>csrf = Some [], companyId = None\<rparr>) \<and>
   falsy (csrf \<lparr>csrf = Some [], companyId = None\<rparr>) \<and>
   X_COMPANY_ID (headers (buildAuthVariables [] \<lparr>csrf = Some [], companyId = None\<rparr> ''alice'' [])) = ''4623'' \<and>
   company_id (session_info (buildAuthVariables [] \<lparr>csrf = Some [], companyId = None\<rparr> ''alice'' [])) = ''4623'' \<and>
   X_CSRF_Token (headers (buildAuthVariables [] \<lparr>csrf = Some [], companyId = None\<rparr> ''alice'' [])) = None \<and>
   X_CSRF_Token (headers (buildAuthVariables [] \<lparr>csrf = Some ''tok1'', companyId = Some ''77''\<rparr> ''alice'' [])) = Some ''tok1''"
  using default_asymmetry [of "\<lparr>csrf = Some [], companyId = None\<rparr>" "[]" "''alice''" "[]"]
    default_asymmetry [of "\<lparr>csrf = Some ''tok1'', companyId = Some ''77''\<rparr>" "[]" "''alice''" "[]"]
  by (simp add: falsy_def buildAuthVariables_def orNull_def)

subsection \<open>First match wins\<close>

text \<open>
  C5, as stated, fails when a block is a call of \<open>aDom.construct\<close>. The first script below
  holds two calls: the first matches the pattern and does not define \<open>csrfToken\<close>, the second
  defines it as A. The match of line 113 is not global, so only the first call of a script
  is examined, and the extracted token is B, from the later script, although the call that
  defines A is scanned first.
\<close>

theorem later_call_of_a_script_not_examined:
  "matchesAdom callPlain \<and> scriptCsrf callPlain = None \<and>
   scriptCsrf callA = Some ''A'' \<and> scriptCsrf callB = Some ''B'' \<and>
   csrf (extractAuthData [callPlain @ '' '' @ callA, callB]) = Some ''B''"
  by (simp add: extractAuthData_def scanScript_def falsy_def matchesAdom_def scriptCsrf_def
      callPlain_def callA_def callB_def adomRe_def csrfRe_def companyRe_def lit_def
      squote_def dquote_def isSpace_def isDigit_def grab_def)

text \<open>
  C5, amended. Each of the two keys gets the value found in the first script, in document
  order, whose first \<open>aDom.construct({...})\<close> call defines that key (a later call inside the
  same script is not examined); later scripts that define the key too do not change it.
  The two keys are resolved separately, each from its own first script.
\<close>

theorem first_match_wins:
  "csrf (extractAuthData scripts) = firstFound (map scriptCsrf scripts) \<and>
   companyId (extractAuthData scripts) = firstFound (map scriptCompany scripts)"
  by (simp add: extract_csrf extract_companyId)

text \<open>Two scripts define \<open>csrfToken\<close>; only the second defines \<open>currentCompanyId\<close>.\<close>

theorem first_match_wins_witness:
  "scriptCsrf scriptFirst = Some ''tok1'' \<and> scriptCsrf scriptSecond = Some ''tok2'' \<and>
   csrf (extractAuthData [scriptPlain, scriptFirst, scriptSecond]) = Some ''tok1'' \<and>
   companyId (extractAuthData [scriptPlain, scriptFirst, scriptSecond]) = Some ''77''"
  using first_match_wins [of "[scriptPlain, scriptFirst, scriptSecond]"]
  by (simp add: sample_scripts_found)

subsection \<open>Unrelated scripts\<close>

text \<open>
  C6. Scripts whose text does not match the \<open>aDom.construct\<close> pattern do not take part in
  the extraction: two pages whose matching scripts are the same, in the same order, give
  the same two values, wherever the other scripts are and however many there are. Scanning
  the page again from the values already extracted changes nothing.
\<close>

theorem unrelated_scripts_ignored:
  "(filter matchesAdom xs = filter matchesAdom ys \<longrightarrow> extractAuthData xs = extractAuthData ys) \<and>
   foldl scanScript (extractAuthData xs) xs = extractAuthData xs"
  by (metis extractAuthData_def foldl_scanScript_filter rescan_stable)

theorem unrelated_scripts_ignored_witness:
  "filter matchesAdom [scriptPlain, scriptFirst, scriptSecond] =
     filter matchesAdom [scriptFirst, scriptPlain, scriptSecond, scriptPlain] \<and>
   extractAuthData [scriptPlain, scriptFirst, scriptSecond] =
     extractAuthData [scriptFirst, scriptPlain, scriptSecond, scriptPlain]"
  using unrelated_scripts_ignored
    [of "[scriptPlain, scriptFirst, scriptSecond]"
        "[scriptFirst, scriptPlain, scriptSecond, scriptPlain]"]
  by (simp add: sample_scripts_related)

subsection \<open>Missing credentials\<close>

text \<open>
  C7. When the user name or the password is absent from the environment, the harvest
  fails with the missing-credentials error and has issued no call on the browser: the
  list of calls is empty, so the browser was never launched.
\<close>

theorem missing_credentials_no_browser:
  "CHECKOUTCHAMP_USER env = None \<or> CHECKOUTCHAMP_PASS env = None \<Longrightarrow>
   getCheckoutChampAuth env w = ([], Inl MISSING_CREDENTIALS)"
  by (auto simp: getCheckoutChampAuth_def falsy_def throw_def)

theorem missing_credentials_no_browser_witness:
  "CHECKOUTCHAMP_PASS (sampleEnv\<lparr>CHECKOUTCHAMP_PASS := None\<rparr>) = None \<and>
   getCheckoutChampAuth (sampleEnv\<lparr>CHECKOUTCHAMP_PASS := None\<rparr>) sampleWorld =
     ([], Inl MISSING_CREDENTIALS)"
  using missing_credentials_no_browser [of "sampleEnv\<lparr>CHECKOUTCHAMP_PASS := None\<rparr>" sampleWorld]
  by simp

subsection \<open>Navigation failures\<close>

text \<open>
  C8. The outcome of the wait for the navigation that accompanies the click does not
  influence the harvest: a run in which it rejects is the run in which it resolves, and
  when the other calls of steps 1 and 2 and the settle delay resolve, the harvest goes on
  to the verification. A rejection of the first load of the login page ends the harvest
  with an error right there: the next and last call is the release of the browser.
\<close>

theorem navigation_failure_tolerance:
  "getCheckoutChampAuth env (w\<lparr>waitForNavigation := Inl e\<rparr>) =
     getCheckoutChampAuth env (w\<lparr>waitForNavigation := Inr ()\<rparr>) \<and>
   (\<not> falsy (CHECKOUTCHAMP_USER env) \<and> \<not> falsy (CHECKOUTCHAMP_PASS env) \<and>
    launch w = Inr () \<and> newContext w = Inr () \<and> newPage w = Inr () \<and>
    gotoLogin w = Inr () \<and> fillUser w = Inr () \<and> fillPass w = Inr () \<and> click w = Inr () \<and>
    waitForTimeout w = Inr () \<and> waitForNavigation w = Inl e \<longrightarrow>
      (\<exists>rest. fst (getCheckoutChampAuth env w) =
         [Launch, NewContext USER_AGENT, NewPage] @
         SUBMIT_CALLS (strOf (CHECKOUTCHAMP_USER env)) (strOf (CHECKOUTCHAMP_PASS env)) @
         [WaitForTimeout 2000] @ fst (verifyLogin w) @ rest)) \<and>
   (\<not> falsy (CHECKOUTCHAMP_USER env) \<and> \<not> falsy (CHECKOUTCHAMP_PASS env) \<and>
    launch w = Inr () \<and> newContext w = Inr () \<and> newPage w = Inr () \<and>
    gotoLogin w = Inl e \<longrightarrow>
      getCheckoutChampAuth env w =
        ([Launch, NewContext USER_AGENT, NewPage, Goto LOGIN_URL 30000, Close],
         case close2 w of Inl e' \<Rightarrow> Inl e' | Inr u \<Rightarrow> Inl e))"
  using harvest_reaches_verification [where env = env and w = w]
    harvest_login_page_failed [where env = env and w = w and e = e]
  by (simp add: harvest_ignores_navigation_wait)

theorem navigation_failure_tolerance_witness:
  "waitForNavigation sampleWorld = Inl ''Timeout 20000ms exceeded'' \<and>
   (\<exists>rest. fst (getCheckoutChampAuth sampleEnv sampleWorld) =
      [Launch, NewContext USER_AGENT, NewPage] @ SUBMIT_CALLS ''alice'' ''hunter2'' @
      [WaitForTimeout 2000] @ fst (verifyLogin sampleWorld) @ rest) \<and>
   getCheckoutChampAuth sampleEnv (sampleWorld\<lparr>gotoLogin := Inl ''net::ERR_CONNECTION_REFUSED''\<rparr>) =
     ([Launch, NewContext USER_AGENT, NewPage, Goto LOGIN_URL 30000, Close],
      Inl ''net::ERR_CONNECTION_REFUSED'')"
  using navigation_failure_tolerance
      [where env = sampleEnv and w = sampleWorld and e = "''Timeout 20000ms exceeded''"]
    navigation_failure_tolerance
      [where env = sampleEnv
         and w = "sampleWorld\<lparr>gotoLogin := Inl ''net::ERR_CONNECTION_REFUSED''\<rparr>"
         and e = "''net::ERR_CONNECTION_REFUSED''"]
  by (simp add: sample_fields sample_truthy)

subsection \<open>The endpoint contract\<close>

text \<open>
  C9, as stated, fails: a request whose \<open>X-API-Token\<close> header is present with an empty
  value differs from the configured token, yet it is answered 401 and not 403, because the
  guard of line 23 tests the header value for truthiness.
\<close>

theorem empty_token_header_is_401:
  "x_api_token (tokenRequest (Some [])) \<noteq> None \<and>
   x_api_token (tokenRequest (Some [])) \<noteq> API_TOKEN sampleEnv \<and>
   status (snd (postApiAuth sampleEnv (tokenRequest (Some [])) sampleWorld)) = 401 \<and>
   status (snd (postApiAuth sampleEnv (tokenRequest (Some [])) sampleWorld)) \<noteq> 403"
  by (simp add: postApiAuth_def expressJson_def verifyApiToken_def falsy_def sampleEnv_def
      tokenRequest_def)

text \<open>
  C9, amended. A request whose body the JSON parser of line 11 rejects is answered by the
  default error handler before the token is read: with 400 when the body is not well-formed
  JSON, and with the status of the parser's error otherwise. Of the requests that the parser passes on:
  one without the header, or with an empty header value, gets 401 with the error
  Unauthorized; one with a non-empty value that differs from the configured token gets 403
  with the error Forbidden; one with the configured token gets 500 with the error Internal
  Server Error and the message of the harvest's error when the harvest fails, and 200 with
  the bundle as body when it succeeds.
\<close>

theorem auth_endpoint_contract:
  "(jsonBody req = BodyMalformed \<longrightarrow>
      postApiAuth env req w = ([], \<lparr>status = 400, body = ErrorPage\<rparr>)) \<and>
   (\<forall>s. jsonBody req = BodyRefused s \<longrightarrow>
      postApiAuth env req w = ([], \<lparr>status = errorStatus s, body = ErrorPage\<rparr>)) \<and>
   (jsonBody req = BodyAccepted \<and> falsy (x_api_token req) \<longrightarrow>
      postApiAuth env req w =
        ([], \<lparr>status = 401, body = ErrorBody ''Unauthorized'' ''Missing X-API-Token header''\<rparr>)) \<and>
   (jsonBody req = BodyAccepted \<and> \<not> falsy (x_api_token req) \<and>
    x_api_token req \<noteq> API_TOKEN env \<longrightarrow>
      postApiAuth env req w =
        ([], \<lparr>status = 403, body = ErrorBody ''Forbidden'' ''Invalid API token''\<rparr>)) \<and>
   (jsonBody req = BodyAccepted \<and> \<not> falsy (x_api_token req) \<and>
    x_api_token req = API_TOKEN env \<longrightarrow>
      (\<forall>m. snd (getCheckoutChampAuth env w) = Inl m \<longrightarrow>
         snd (postApiAuth env req w) =
           \<lparr>status = 500, body = ErrorBody ''Internal Server Error'' m\<rparr>) \<and>
      (\<forall>b. snd (getCheckoutChampAuth env w) = Inr b \<longrightarrow>
         snd (postApiAuth env req w) = \<lparr>status = 200, body = AuthBody b\<rparr>))"
  by (cases "getCheckoutChampAuth env w")
     (auto simp: postApiAuth_def expressJson_def verifyApiToken_def Let_def errorStatus_def
        split: sum.splits)

theorem auth_endpoint_contract_witness:
  "postApiAuth sampleEnv malformedRequest sampleWorld =
     ([], \<lparr>status = 400, body = ErrorPage\<rparr>) \<and>
   postApiAuth sampleEnv (tokenRequest None) sampleWorld =
     ([], \<lparr>status = 401, body = ErrorBody ''Unauthorized'' ''Missing X-API-Token header''\<rparr>) \<and>
   postApiAuth sampleEnv (tokenRequest (Some ''guess'')) sampleWorld =
     ([], \<lparr>status = 403, body = ErrorBody ''Forbidden'' ''Invalid API token''\<rparr>) \<and>
   snd (postApiAuth sampleEnv (tokenRequest (Some ''secret'')) stuckWorld) =
     \<lparr>status = 500, body = ErrorBody ''Internal Server Error'' LOGIN_FAILED\<rparr> \<and>
   snd (postApiAuth sampleEnv (tokenRequest (Some ''secret'')) sampleWorld) =
     \<lparr>status = 200,
      body = AuthBody (buildAuthVariables []
               (extractAuthData [scriptPlain, scriptFirst, scriptSecond])
               ''alice'' ''2024-05-01T10:00:00.000Z'')\<rparr>"
proof -
  have 0: "postApiAuth sampleEnv malformedRequest sampleWorld =
      ([], \<lparr>status = 400, body = ErrorPage\<rparr>)"
    using auth_endpoint_contract
      [where req = malformedRequest and env = sampleEnv and w = sampleWorld]
    by (simp add: malformedRequest_def errorStatus_def)
  have 1: "postApiAuth sampleEnv (tokenRequest None) sampleWorld =
      ([], \<lparr>status = 401, body = ErrorBody ''Unauthorized'' ''Missing X-API-Token header''\<rparr>)"
    using auth_endpoint_contract
      [where req = "tokenRequest None" and env = sampleEnv and w = sampleWorld]
    by (simp add: tokenRequest_fields falsy_def)
  have 2: "postApiAuth sampleEnv (tokenRequest (Some ''guess'')) sampleWorld =
      ([], \<lparr>status = 403, body = ErrorBody ''Forbidden'' ''Invalid API token''\<rparr>)"
    using auth_endpoint_contract
      [where req = "tokenRequest (Some ''guess'')" and env = sampleEnv and w = sampleWorld]
    by (simp add: tokenRequest_fields falsy_def sampleEnv_def)
  have 3: "snd (postApiAuth sampleEnv (tokenRequest (Some ''secret'')) stuckWorld) =
      \<lparr>status = 500, body = ErrorBody ''Internal Server Error'' LOGIN_FAILED\<rparr>"
    using auth_endpoint_contract
      [where req = "tokenRequest (Some ''secret'')" and env = sampleEnv and w = stuckWorld]
      stuck_harvest
    by (simp add: tokenRequest_fields falsy_def sampleEnv_def)
  have 4: "snd (postApiAuth sampleEnv (tokenRequest (Some ''secret'')) sampleWorld) =
     \<lparr>status = 200,
      body = AuthBody (buildAuthVariables []
               (extractAuthData [scriptPlain, scriptFirst, scriptSecond])
               ''alice'' ''2024-05-01T10:00:00.000Z'')\<rparr>"
    using auth_endpoint_contract
      [where req = "tokenRequest (Some ''secret'')" and env = sampleEnv and w = sampleWorld]
      sample_harvest
    by (simp add: tokenRequest_fields falsy_def sampleEnv_def)
  show ?thesis
    using 0 1 2 3 4 by blast
qed

subsection \<open>An unset API token\<close>

text \<open>
  C10, as stated, fails: with the API token unset, a request whose header is present with
  an empty value is answered 401, not 403.
\<close>

theorem unset_token_empty_header_is_401:
  "API_TOKEN (sampleEnv\<lparr>API_TOKEN := None\<rparr>) = None \<and>
   x_api_token (tokenRequest (Some [])) \<noteq> None \<and>
   status (snd (postApiAuth (sampleEnv\<lparr>API_TOKEN := None\<rparr>) (tokenRequest (Some []))
                 sampleWorld)) = 401 \<and>
   status (snd (postApiAuth (sampleEnv\<lparr>API_TOKEN := None\<rparr>) (tokenRequest (Some []))
                 sampleWorld)) \<noteq> 403"
  by (simp add: postApiAuth_def expressJson_def verifyApiToken_def falsy_def tokenRequest_def)

text \<open>
  C10, amended. With the API token unset no request succeeds: every request is answered
  before the handler is reached, so the harvest is not started, the answer is never 200 and
  never carries a bundle. A request whose body the JSON parser of line 11 rejects gets 400
  when the body is not well-formed JSON, and the status of the parser's error otherwise. Of the
  requests that the parser passes on, the token middleware answers 401 when the header is
  missing or empty, and 403 for every non-empty header value.
\<close>

theorem unset_token_never_opens:
  "API_TOKEN env = None \<Longrightarrow>
   verifyApiToken env req \<noteq> None \<and>
   fst (postApiAuth env req w) = [] \<and>
   status (snd (postApiAuth env req w)) \<noteq> 200 \<and>
   (\<forall>b. body (snd (postApiAuth env req w)) \<noteq> AuthBody b) \<and>
   (jsonBody req = BodyMalformed \<longrightarrow> status (snd (postApiAuth env req w)) = 400) \<and>
   (\<forall>s. jsonBody req = BodyRefused s \<longrightarrow>
      status (snd (postApiAuth env req w)) = errorStatus s) \<and>
   (jsonBody req = BodyAccepted \<longrightarrow>
      status (snd (postApiAuth env req w)) = (if falsy (x_api_token req) then 401 else 403))"
  by (cases "jsonBody req")
     (auto simp: postApiAuth_def expressJson_def verifyApiToken_def Let_def falsy_def
        errorStatus_def split: option.splits)

theorem unset_token_never_opens_witness:
  "API_TOKEN (sampleEnv\<lparr>API_TOKEN := None\<rparr>) = None \<and>
   fst (postApiAuth (sampleEnv\<lparr>API_TOKEN := None\<rparr>) (tokenRequest (Some ''guess''))
          sampleWorld) = [] \<and>
   status (snd (postApiAuth (sampleEnv\<lparr>API_TOKEN := None\<rparr>) (tokenRequest (Some ''guess''))
                 sampleWorld)) = 403 \<and>
   status (snd (postApiAuth (sampleEnv\<lparr>API_TOKEN := None\<rparr>) (tokenRequest None)
                 sampleWorld)) = 401 \<and>
   status (snd (postApiAuth (sampleEnv\<lparr>API_TOKEN := None\<rparr>) malformedRequest
                 sampleWorld)) = 400"
  using unset_token_never_opens
      [where env = "sampleEnv\<lparr>API_TOKEN := None\<rparr>"
         and req = "tokenRequest (Some ''guess'')" and w = sampleWorld]
    unset_token_never_opens
      [where env = "sampleEnv\<lparr>API_TOKEN := None\<rparr>"
         and req = "tokenRequest None" and w = sampleWorld]
    unset_token_never_opens
      [where env = "sampleEnv\<lparr>API_TOKEN := None\<rparr>"
         and req = malformedRequest and w = sampleWorld]
  by (simp add: tokenRequest_fields falsy_def malformedRequest_def errorStatus_def)

end
